theory Spec2Isabelle
  imports Main
begin

section \<open>Expression trees of the optimizer\<close>

text \<open>
  The binary operators of the grammar (\<^verbatim>\<open>AstBinaryOperation\<close>): in the source they are
  the strings \<^verbatim>\<open>"+" "-" "*" "/" "%" "<<" ">>" "&&" "||" "==" "!="\<close> and the
  comparison and bitwise symbols.
\<close>

datatype binop =
    Add | Sub | Mul | Div | Mod | Shl | Shr
  | AndAnd | OrOr | EqEq | NotEq
  | Lt | Le | Gt | Ge | BitAnd | BitOr | BitXor

text \<open>
  A semantic value (\<^verbatim>\<open>Value\<close> of \<^verbatim>\<open>types/types\<close>): a \<^verbatim>\<open>bigint\<close>, a boolean, a string
  or null.
\<close>

datatype val = VInt int | VBool bool | VStr string | VNull

text \<open>
  An expression (\<^verbatim>\<open>AstExpression\<close>): a literal (\<^verbatim>\<open>AstValue\<close>), a binary operation
  (\<^verbatim>\<open>AstOpBinary\<close> with its fields \<^verbatim>\<open>op\<close>, \<^verbatim>\<open>left\<close>, \<^verbatim>\<open>right\<close>), or an identifier, which
  stands for an operand unknown at optimization time. The selectors are only applied
  under the shape checks that guarantee the constructor, as the casts of the source are.
\<close>

datatype expr =
    Literal (litValue: val)
  | OpBinary (op: binop) (left: expr) (right: expr)
  | Ident (name: string)

text \<open>
  The callback into the surrounding optimizer (\<^verbatim>\<open>ExpressionTransformer.applyRules\<close>,
  from a tree to a tree). The optimizer is an object of its own: \<open>'s\<close> is whatever state
  it keeps, handed in and returned at every call, so that a call leaves a trace.
\<close>

type_synonym 's ExpressionTransformer = "expr \<Rightarrow> 's \<Rightarrow> expr \<times> 's"

text \<open>
  What a \<^verbatim>\<open>throw\<close> of the source carries: a failure of the constant evaluator, the
  \<^verbatim>\<open>integer expected\<close> error of \<^verbatim>\<open>ensureInt\<close>, and the type error of calling a method of
  \<^verbatim>\<open>undefined\<close> when a table has no entry.
\<close>

datatype error = EvalError | IntegerExpected | UndefinedTransform

definition bindE :: "error + 'a \<Rightarrow> ('a \<Rightarrow> error + 'b) \<Rightarrow> error + 'b" where
  "bindE m f = (case m of Inl e \<Rightarrow> Inl e | Inr x \<Rightarrow> f x)"

subsection \<open>Utilities of the optimizer\<close>

text \<open>Modelled from the spec: the node predicate \<^verbatim>\<open>isValue\<close> of \<^verbatim>\<open>grammar/ast\<close>,
  "is this node a literal".\<close>

definition isValue :: "expr \<Rightarrow> bool" where
  "isValue ast = (case ast of Literal _ \<Rightarrow> True | _ \<Rightarrow> False)"

text \<open>Modelled from the spec: \<^verbatim>\<open>checkIsBinaryOpNode\<close> of \<^verbatim>\<open>optimizer/util\<close>,
  "is this node a binary operation".\<close>

definition checkIsBinaryOpNode :: "expr \<Rightarrow> bool" where
  "checkIsBinaryOpNode ast = (case ast of OpBinary _ _ _ \<Rightarrow> True | _ \<Rightarrow> False)"

text \<open>Modelled from the spec: \<^verbatim>\<open>checkIsBinaryOp_NonValue_Value\<close> of \<^verbatim>\<open>optimizer/util\<close>,
  a binary node with an unknown (non-literal) operand on its left and a literal on its
  right, the shape \<open>x op c\<close>.\<close>

definition checkIsBinaryOp_NonValue_Value :: "expr \<Rightarrow> bool" where
  "checkIsBinaryOp_NonValue_Value ast =
     (case ast of OpBinary _ l r \<Rightarrow> \<not> isValue l \<and> isValue r | _ \<Rightarrow> False)"

text \<open>Modelled from the spec: \<^verbatim>\<open>checkIsBinaryOp_Value_NonValue\<close> of \<^verbatim>\<open>optimizer/util\<close>,
  a binary node with a literal on its left and an unknown (non-literal) operand on its
  right, the shape \<open>c op x\<close>.\<close>

definition checkIsBinaryOp_Value_NonValue :: "expr \<Rightarrow> bool" where
  "checkIsBinaryOp_Value_NonValue ast =
     (case ast of OpBinary _ l r \<Rightarrow> isValue l \<and> \<not> isValue r | _ \<Rightarrow> False)"

text \<open>Modelled from the spec: \<^verbatim>\<open>extractValue\<close> of \<^verbatim>\<open>optimizer/util\<close>, the constant
  a literal node holds.\<close>

definition extractValue :: "expr \<Rightarrow> val" where
  "extractValue ast = litValue ast"

text \<open>Modelled from the spec: \<^verbatim>\<open>makeValueExpression\<close> of \<^verbatim>\<open>optimizer/util\<close>, a fresh
  literal node for a constant.\<close>

definition makeValueExpression :: "val \<Rightarrow> expr" where
  "makeValueExpression v = Literal v"

text \<open>Modelled from the spec: \<^verbatim>\<open>makeBinaryExpression\<close> of \<^verbatim>\<open>optimizer/util\<close>, a fresh
  binary node.\<close>

definition makeBinaryExpression :: "binop \<Rightarrow> expr \<Rightarrow> expr \<Rightarrow> expr" where
  "makeBinaryExpression opr l r = OpBinary opr l r"

text \<open>Modelled from the spec: \<^verbatim>\<open>sign\<close> of \<^verbatim>\<open>optimizer/util\<close>, the sign of an integer
  as \<open>-1\<close>, \<open>0\<close> or \<open>1\<close>.\<close>

definition sign :: "int \<Rightarrow> int" where
  "sign a = (if a = 0 then 0 else if a < 0 then - 1 else 1)"

text \<open>Modelled from the spec: \<^verbatim>\<open>abs\<close> of \<^verbatim>\<open>optimizer/util\<close>, the magnitude of an
  integer.\<close>

definition abs_big :: "int \<Rightarrow> int" where
  "abs_big a = (if a < 0 then - a else a)"

subsection \<open>The constant evaluator\<close>

text \<open>
  The integers of the language are fixed-width and checked: a result outside the
  representable range is an error. The width is not fixed by the rules, so it is the
  parameter \<open>w\<close>: the representable integers are \<open>- 2 ^ w \<dots> 2 ^ w - 1\<close>.
\<close>

definition inRange :: "nat \<Rightarrow> int \<Rightarrow> bool" where
  "inRange w i = (- (2 ^ w) \<le> i \<and> i < 2 ^ w)"

definition checkedInt :: "nat \<Rightarrow> int \<Rightarrow> error + val" where
  "checkedInt w i = (if inRange w i then Inr (VInt i) else Inl EvalError)"

definition intOp :: "nat \<Rightarrow> (int \<Rightarrow> int \<Rightarrow> int) \<Rightarrow> val \<Rightarrow> val \<Rightarrow> error + val" where
  "intOp w f a b =
     (case a of
        VInt x \<Rightarrow> (case b of VInt y \<Rightarrow> checkedInt w (f x y) | _ \<Rightarrow> Inl EvalError)
      | _ \<Rightarrow> Inl EvalError)"

definition intDivOp :: "nat \<Rightarrow> (int \<Rightarrow> int \<Rightarrow> int) \<Rightarrow> val \<Rightarrow> val \<Rightarrow> error + val" where
  "intDivOp w f a b =
     (case a of
        VInt x \<Rightarrow>
          (case b of
             VInt y \<Rightarrow> if y = 0 then Inl EvalError else checkedInt w (f x y)
           | _ \<Rightarrow> Inl EvalError)
      | _ \<Rightarrow> Inl EvalError)"

definition intShiftOp :: "nat \<Rightarrow> (int \<Rightarrow> nat \<Rightarrow> int) \<Rightarrow> val \<Rightarrow> val \<Rightarrow> error + val" where
  "intShiftOp w f a b =
     (case a of
        VInt x \<Rightarrow>
          (case b of
             VInt y \<Rightarrow> if y < 0 then Inl EvalError else checkedInt w (f x (nat y))
           | _ \<Rightarrow> Inl EvalError)
      | _ \<Rightarrow> Inl EvalError)"

definition intCmpOp :: "(int \<Rightarrow> int \<Rightarrow> bool) \<Rightarrow> val \<Rightarrow> val \<Rightarrow> error + val" where
  "intCmpOp f a b =
     (case a of
        VInt x \<Rightarrow> (case b of VInt y \<Rightarrow> Inr (VBool (f x y)) | _ \<Rightarrow> Inl EvalError)
      | _ \<Rightarrow> Inl EvalError)"

definition boolOp :: "(bool \<Rightarrow> bool \<Rightarrow> bool) \<Rightarrow> val \<Rightarrow> val \<Rightarrow> error + val" where
  "boolOp f a b =
     (case a of
        VBool x \<Rightarrow> (case b of VBool y \<Rightarrow> Inr (VBool (f x y)) | _ \<Rightarrow> Inl EvalError)
      | _ \<Rightarrow> Inl EvalError)"

text \<open>Modelled from the spec: \<^verbatim>\<open>evalBinaryOp\<close> of \<^verbatim>\<open>constEval\<close>, the external constant
  evaluator \<open>evaluateBinaryOperation(op, a, b)\<close>. It computes the fold of two constants
  and fails with an evaluation error when the operator and operands do not fit (wrong
  types), on a division by zero and when the result is out of range. Every integer
  result goes through the range check.\<close>

definition evalBinaryOp :: "nat \<Rightarrow> binop \<Rightarrow> val \<Rightarrow> val \<Rightarrow> error + val" where
  "evalBinaryOp w opr a b =
     (case opr of
        Add \<Rightarrow> intOp w (\<lambda>x y. x + y) a b
      | Sub \<Rightarrow> intOp w (\<lambda>x y. x - y) a b
      | Mul \<Rightarrow> intOp w (\<lambda>x y. x * y) a b
      | Div \<Rightarrow> intDivOp w (\<lambda>x y. x div y) a b
      | Mod \<Rightarrow> intDivOp w (\<lambda>x y. x mod y) a b
      | Shl \<Rightarrow> intShiftOp w (\<lambda>x n. push_bit n x) a b
      | Shr \<Rightarrow> intShiftOp w (\<lambda>x n. drop_bit n x) a b
      | BitAnd \<Rightarrow> intOp w (\<lambda>x y. and x y) a b
      | BitOr \<Rightarrow> intOp w (\<lambda>x y. or x y) a b
      | BitXor \<Rightarrow> intOp w (\<lambda>x y. xor x y) a b
      | Lt \<Rightarrow> intCmpOp (\<lambda>x y. x < y) a b
      | Le \<Rightarrow> intCmpOp (\<lambda>x y. x \<le> y) a b
      | Gt \<Rightarrow> intCmpOp (\<lambda>x y. x > y) a b
      | Ge \<Rightarrow> intCmpOp (\<lambda>x y. x \<ge> y) a b
      | AndAnd \<Rightarrow> boolOp (\<lambda>x y. x \<and> y) a b
      | OrOr \<Rightarrow> boolOp (\<lambda>x y. x \<or> y) a b
      | EqEq \<Rightarrow> Inr (VBool (a = b))
      | NotEq \<Rightarrow> Inr (VBool (a \<noteq> b)))"

section \<open>The associative rewrite rules\<close>

subsection \<open>\<^verbatim>\<open>AssociativeRewriteRule\<close>: the operator property tables\<close>

text \<open>
  An entry \<open>(op, S)\<close> of \<open>associativeOps\<close> means that \<open>op\<close> associates with every operator
  of \<open>S\<close> on its right. The table has the two keys \<open>+\<close> and \<open>*\<close>.
\<close>

definition additiveAssoc :: "binop set" where
  "additiveAssoc = {Add, Sub}"

definition multiplicativeAssoc :: "binop set" where
  "multiplicativeAssoc = {Mul, Shl}"

definition associativeOps :: "(binop \<times> binop set) list" where
  "associativeOps = [(Add, additiveAssoc), (Mul, multiplicativeAssoc)]"

definition commutativeOps :: "binop set" where
  "commutativeOps = {Add, Mul, NotEq, EqEq, AndAnd, OrOr}"

definition areAssociative :: "binop \<Rightarrow> binop \<Rightarrow> bool" where
  "areAssociative op1 op2 =
     (case map_of associativeOps op1 of
        Some rightOperators \<Rightarrow> op2 \<in> rightOperators
      | None \<Rightarrow> False)"

definition isCommutative :: "binop \<Rightarrow> bool" where
  "isCommutative opr = (opr \<in> commutativeOps)"

subsection \<open>\<^verbatim>\<open>AllowableOpRule\<close>: the allowed-operator gate\<close>

definition allowedOps :: "binop set" where
  "allowedOps = {AndAnd, OrOr}"

definition isAllowedOp :: "binop \<Rightarrow> bool" where
  "isAllowedOp opr = (opr \<in> allowedOps)"

definition areAllowedOps :: "binop list \<Rightarrow> bool" where
  "areAllowedOps ops = foldl (\<lambda>prev curr. prev \<and> curr \<in> allowedOps) True ops"

subsection \<open>\<^verbatim>\<open>AssociativeRule1\<close>\<close>

text \<open>
  Each branch of the rule runs its \<^verbatim>\<open>try\<close> block as a computation in \<open>error + _\<close>; the
  \<^verbatim>\<open>catch\<close> discards the error, and control then reaches the final \<^verbatim>\<open>return ast\<close>.
  A branch whose condition fails reaches it as well.
\<close>

definition applyRule1 :: "nat \<Rightarrow> 's ExpressionTransformer \<Rightarrow> expr \<Rightarrow> 's \<Rightarrow> expr \<times> 's" where
  "applyRule1 w optimizer ast s =
     (if checkIsBinaryOpNode ast then
        (let topLevelNode = ast
         in
         if checkIsBinaryOp_NonValue_Value (left topLevelNode) \<and>
            checkIsBinaryOp_NonValue_Value (right topLevelNode)
         then
           \<comment> \<open>\<open>(x1 op1 c1) op (x2 op2 c2)\<close>\<close>
           (let leftTree = left topLevelNode;
                rightTree = right topLevelNode;
                x1 = left leftTree;
                c1 = right leftTree;
                op1 = op leftTree;
                x2 = left rightTree;
                c2 = right rightTree;
                op2 = op rightTree;
                op0 = op topLevelNode
            in
            if areAllowedOps [op1, op0, op2] \<and> areAssociative op1 op0 \<and>
               areAssociative op0 op2 \<and> isCommutative op0
            then
              (case evalBinaryOp w op2 (extractValue c1) (extractValue c2) of
                 Inr v \<Rightarrow>
                   (let (newLeft, s') = optimizer (makeBinaryExpression op1 x1 x2) s;
                        newRight = makeValueExpression v
                    in (makeBinaryExpression op0 newLeft newRight, s'))
               | Inl e \<Rightarrow> (ast, s))
            else (ast, s))
         else if checkIsBinaryOp_NonValue_Value (left topLevelNode) \<and>
                 checkIsBinaryOp_Value_NonValue (right topLevelNode)
         then
           \<comment> \<open>\<open>(x1 op1 c1) op (c2 op2 x2)\<close>\<close>
           (let leftTree = left topLevelNode;
                rightTree = right topLevelNode;
                x1 = left leftTree;
                c1 = right leftTree;
                op1 = op leftTree;
                x2 = right rightTree;
                c2 = left rightTree;
                op2 = op rightTree;
                op0 = op topLevelNode
            in
            if areAllowedOps [op1, op0, op2] \<and> areAssociative op1 op0 \<and>
               areAssociative op0 op2
            then
              (case evalBinaryOp w op0 (extractValue c1) (extractValue c2) of
                 Inr v \<Rightarrow>
                   (let newValNode = makeValueExpression v;
                        (newLeft, s') = optimizer (makeBinaryExpression op1 x1 newValNode) s
                    in (makeBinaryExpression op2 newLeft x2, s'))
               | Inl e \<Rightarrow> (ast, s))
            else (ast, s))
         else if checkIsBinaryOp_Value_NonValue (left topLevelNode) \<and>
                 checkIsBinaryOp_NonValue_Value (right topLevelNode)
         then
           \<comment> \<open>\<open>(c1 op1 x1) op (x2 op2 c2)\<close>\<close>
           (let leftTree = left topLevelNode;
                rightTree = right topLevelNode;
                x1 = right leftTree;
                c1 = left leftTree;
                op1 = op leftTree;
                x2 = left rightTree;
                c2 = right rightTree;
                op2 = op rightTree;
                op0 = op topLevelNode
            in
            if areAllowedOps [op1, op0, op2] \<and> areAssociative op0 op1 \<and>
               areAssociative op2 op0 \<and> isCommutative op0
            then
              (case evalBinaryOp w op0 (extractValue c2) (extractValue c1) of
                 Inr v \<Rightarrow>
                   (let newValNode = makeValueExpression v;
                        (newLeft, s') = optimizer (makeBinaryExpression op2 x2 newValNode) s
                    in (makeBinaryExpression op1 newLeft x1, s'))
               | Inl e \<Rightarrow> (ast, s))
            else (ast, s))
         else if checkIsBinaryOp_Value_NonValue (left topLevelNode) \<and>
                 checkIsBinaryOp_Value_NonValue (right topLevelNode)
         then
           \<comment> \<open>\<open>(c1 op1 x1) op (c2 op2 x2)\<close>\<close>
           (let leftTree = left topLevelNode;
                rightTree = right topLevelNode;
                x1 = right leftTree;
                c1 = left leftTree;
                op1 = op leftTree;
                x2 = right rightTree;
                c2 = left rightTree;
                op2 = op rightTree;
                op0 = op topLevelNode
            in
            if areAllowedOps [op1, op0, op2] \<and> areAssociative op1 op0 \<and>
               areAssociative op0 op2 \<and> isCommutative op0
            then
              (case evalBinaryOp w op1 (extractValue c1) (extractValue c2) of
                 Inr v \<Rightarrow>
                   (let (newRight, s') = optimizer (makeBinaryExpression op2 x1 x2) s;
                        newLeft = makeValueExpression v
                    in (makeBinaryExpression op0 newLeft newRight, s'))
               | Inl e \<Rightarrow> (ast, s))
            else (ast, s))
         else (ast, s))
      else (ast, s))"

subsection \<open>\<^verbatim>\<open>AssociativeRule2\<close>\<close>

text \<open>This rule folds nothing, so it has no \<^verbatim>\<open>try\<close> block.\<close>

definition applyRule2 :: "'s ExpressionTransformer \<Rightarrow> expr \<Rightarrow> 's \<Rightarrow> expr \<times> 's" where
  "applyRule2 optimizer ast s =
     (if checkIsBinaryOpNode ast then
        (let topLevelNode = ast
         in
         if checkIsBinaryOp_NonValue_Value (left topLevelNode) \<and>
            \<not> isValue (right topLevelNode)
         then
           \<comment> \<open>\<open>(x1 op1 c1) op x2\<close>\<close>
           (let leftTree = left topLevelNode;
                rightTree = right topLevelNode;
                x1 = left leftTree;
                c1 = right leftTree;
                op1 = op leftTree;
                x2 = rightTree;
                op0 = op topLevelNode
            in
            if areAllowedOps [op1, op0] \<and> areAssociative op1 op0 \<and> isCommutative op0
            then
              (let (newLeft, s') = optimizer (makeBinaryExpression op1 x1 x2) s
               in (makeBinaryExpression op0 newLeft c1, s'))
            else (ast, s))
         else if checkIsBinaryOp_Value_NonValue (left topLevelNode) \<and>
                 \<not> isValue (right topLevelNode)
         then
           \<comment> \<open>\<open>(c1 op1 x1) op x2\<close>\<close>
           (let leftTree = left topLevelNode;
                rightTree = right topLevelNode;
                x1 = right leftTree;
                c1 = left leftTree;
                op1 = op leftTree;
                x2 = rightTree;
                op0 = op topLevelNode
            in
            if areAllowedOps [op1, op0] \<and> areAssociative op1 op0
            then
              (let (newRight, s') = optimizer (makeBinaryExpression op0 x1 x2) s
               in (makeBinaryExpression op1 c1 newRight, s'))
            else (ast, s))
         else if \<not> isValue (left topLevelNode) \<and>
                 checkIsBinaryOp_NonValue_Value (right topLevelNode)
         then
           \<comment> \<open>\<open>x2 op (x1 op1 c1)\<close>\<close>
           (let leftTree = left topLevelNode;
                rightTree = right topLevelNode;
                x1 = left rightTree;
                c1 = right rightTree;
                op1 = op rightTree;
                x2 = leftTree;
                op0 = op topLevelNode
            in
            if areAllowedOps [op0, op1] \<and> areAssociative op0 op1
            then
              (let (newLeft, s') = optimizer (makeBinaryExpression op0 x2 x1) s
               in (makeBinaryExpression op1 newLeft c1, s'))
            else (ast, s))
         else if \<not> isValue (left topLevelNode) \<and>
                 checkIsBinaryOp_Value_NonValue (right topLevelNode)
         then
           \<comment> \<open>\<open>x2 op (c1 op1 x1)\<close>\<close>
           (let leftTree = left topLevelNode;
                rightTree = right topLevelNode;
                x1 = right rightTree;
                c1 = left rightTree;
                op1 = op rightTree;
                x2 = leftTree;
                op0 = op topLevelNode
            in
            if areAllowedOps [op0, op1] \<and> areAssociative op0 op1 \<and> isCommutative op0
            then
              (let (newRight, s') = optimizer (makeBinaryExpression op1 x2 x1) s
               in (makeBinaryExpression op0 c1 newRight, s'))
            else (ast, s))
         else (ast, s))
      else (ast, s))"

subsection \<open>\<^verbatim>\<open>AssociativeRule3\<close>: the transform tables\<close>

record transformationData =
  op1' :: binop
  val' :: val

record Transform =
  transform :: "val \<Rightarrow> val \<Rightarrow> error + transformationData"
  safetyCondition :: "val \<Rightarrow> val \<Rightarrow> error + bool"

definition ensureInt :: "val \<Rightarrow> error + int" where
  "ensureInt v = (case v of VInt i \<Rightarrow> Inr i | _ \<Rightarrow> Inl IntegerExpected)"

text \<open>The safety condition \<open>c1 \<noteq> 0 \<Longrightarrow> sign c1 = sign res \<and> abs c1 \<le> abs res\<close>.\<close>

definition standardAdditiveCondition :: "int \<Rightarrow> int \<Rightarrow> bool" where
  "standardAdditiveCondition c1 res =
     (if c1 = 0 then True
      else sign c1 = sign res \<and> abs_big c1 \<le> abs_big res)"

text \<open>The same condition, with \<open>c1 = 0 \<Longrightarrow> res \<ge> 0\<close>.\<close>

definition standardAdditiveWithZeroCondition :: "int \<Rightarrow> int \<Rightarrow> bool" where
  "standardAdditiveWithZeroCondition c1 res =
     (if c1 = 0 then res \<ge> 0
      else sign c1 = sign res \<and> abs_big c1 \<le> abs_big res)"

text \<open>
  The safety condition of the products: when \<open>c1 \<noteq> 0\<close>, \<open>res\<close> is not zero, and
  \<open>abs c1 \<le> abs res\<close> when the signs agree, \<open>abs c1 < abs res\<close> when they differ.
\<close>

definition standardMultiplicativeCondition :: "int \<Rightarrow> int \<Rightarrow> bool" where
  "standardMultiplicativeCondition c1 res =
     (if c1 = 0 then True
      else if res = 0 then False
      else if sign c1 = sign res then abs_big c1 \<le> abs_big res
      else abs_big c1 < abs_big res)"

text \<open>
  The fields \<^verbatim>\<open>op1_\<close> and \<^verbatim>\<open>val_\<close> of the source are written \<open>op1'\<close> and \<open>val'\<close>, and the
  parameter \<^verbatim>\<open>val_\<close> of a safety condition \<open>res\<close>.
  The tables of the constructor. A table is keyed by two operators; an entry folds the
  two constants with the constant evaluator (which may throw) and names the operator of
  the rewritten node, and its safety condition compares the original constant \<open>c1\<close> with
  the folded one. First the trees \<open>(x1 op1 c1) op c2\<close>, keyed by \<open>op1\<close> and then \<open>op\<close>.
\<close>

definition plusLeftAssocOperators :: "nat \<Rightarrow> (binop \<times> Transform) list" where
  "plusLeftAssocOperators w =
      [(Add,
        \<lparr> transform = (\<lambda>c1 c2.
            \<comment> \<open>\<open>(x1 + c1) + c2\<close> becomes \<open>x1 + (c1 + c2)\<close>\<close>
            bindE (evalBinaryOp w Add c1 c2) (\<lambda>res. Inr \<lparr> op1' = Add, val' = res \<rparr>)),
          safetyCondition = (\<lambda>c1 v.
            bindE (ensureInt c1) (\<lambda>n1. bindE (ensureInt v) (\<lambda>res.
              Inr (standardAdditiveCondition n1 res)))) \<rparr>),
       (Sub,
        \<lparr> transform = (\<lambda>c1 c2.
            \<comment> \<open>\<open>(x1 + c1) - c2\<close> becomes \<open>x1 + (c1 - c2)\<close>\<close>
            bindE (evalBinaryOp w Sub c1 c2) (\<lambda>res. Inr \<lparr> op1' = Add, val' = res \<rparr>)),
          safetyCondition = (\<lambda>c1 v.
            bindE (ensureInt c1) (\<lambda>n1. bindE (ensureInt v) (\<lambda>res.
              Inr (standardAdditiveCondition n1 res)))) \<rparr>)]"

definition minusLeftAssocOperators :: "nat \<Rightarrow> (binop \<times> Transform) list" where
  "minusLeftAssocOperators w =
      [(Add,
        \<lparr> transform = (\<lambda>c1 c2.
            \<comment> \<open>\<open>(x1 - c1) + c2\<close> becomes \<open>x1 - (c1 - c2)\<close>\<close>
            bindE (evalBinaryOp w Sub c1 c2) (\<lambda>res. Inr \<lparr> op1' = Sub, val' = res \<rparr>)),
          safetyCondition = (\<lambda>c1 v.
            bindE (ensureInt c1) (\<lambda>n1. bindE (ensureInt v) (\<lambda>res.
              Inr (standardAdditiveCondition n1 res)))) \<rparr>),
       (Sub,
        \<lparr> transform = (\<lambda>c1 c2.
            \<comment> \<open>\<open>(x1 - c1) - c2\<close> becomes \<open>x1 - (c1 + c2)\<close>\<close>
            bindE (evalBinaryOp w Add c1 c2) (\<lambda>res. Inr \<lparr> op1' = Sub, val' = res \<rparr>)),
          safetyCondition = (\<lambda>c1 v.
            bindE (ensureInt c1) (\<lambda>n1. bindE (ensureInt v) (\<lambda>res.
              Inr (standardAdditiveCondition n1 res)))) \<rparr>)]"

definition multiplyLeftAssocOperators :: "nat \<Rightarrow> (binop \<times> Transform) list" where
  "multiplyLeftAssocOperators w =
      [(Mul,
        \<lparr> transform = (\<lambda>c1 c2.
            \<comment> \<open>\<open>(x1 * c1) * c2\<close> becomes \<open>x1 * (c1 * c2)\<close>\<close>
            bindE (evalBinaryOp w Mul c1 c2) (\<lambda>res. Inr \<lparr> op1' = Mul, val' = res \<rparr>)),
          safetyCondition = (\<lambda>c1 v.
            bindE (ensureInt c1) (\<lambda>n1. bindE (ensureInt v) (\<lambda>res.
              Inr (standardMultiplicativeCondition n1 res)))) \<rparr>)]"

definition leftAssocTransforms :: "nat \<Rightarrow> (binop \<times> (binop \<times> Transform) list) list" where
  "leftAssocTransforms w =
     [(Add, plusLeftAssocOperators w),
      (Sub, minusLeftAssocOperators w),
      (Mul, multiplyLeftAssocOperators w)]"

text \<open>
  The trees \<open>c2 op (c1 op1 x1)\<close>, keyed by \<open>op\<close> and then \<open>op1\<close>. There is no table for
  \<open>op = -\<close>.
\<close>

definition plusRightAssocOperators :: "nat \<Rightarrow> (binop \<times> Transform) list" where
  "plusRightAssocOperators w =
      [(Add,
        \<lparr> transform = (\<lambda>c1 c2.
            \<comment> \<open>\<open>c2 + (c1 + x1)\<close> becomes \<open>(c2 + c1) + x1\<close>\<close>
            bindE (evalBinaryOp w Add c2 c1) (\<lambda>res. Inr \<lparr> op1' = Add, val' = res \<rparr>)),
          safetyCondition = (\<lambda>c1 v.
            bindE (ensureInt c1) (\<lambda>n1. bindE (ensureInt v) (\<lambda>res.
              Inr (standardAdditiveCondition n1 res)))) \<rparr>),
       (Sub,
        \<lparr> transform = (\<lambda>c1 c2.
            \<comment> \<open>\<open>c2 + (c1 - x1)\<close> becomes \<open>(c2 + c1) - x1\<close>\<close>
            bindE (evalBinaryOp w Add c2 c1) (\<lambda>res. Inr \<lparr> op1' = Sub, val' = res \<rparr>)),
          safetyCondition = (\<lambda>c1 v.
            bindE (ensureInt c1) (\<lambda>n1. bindE (ensureInt v) (\<lambda>res.
              Inr (standardAdditiveWithZeroCondition n1 res)))) \<rparr>)]"

definition multiplyRightAssocOperators :: "nat \<Rightarrow> (binop \<times> Transform) list" where
  "multiplyRightAssocOperators w =
      [(Mul,
        \<lparr> transform = (\<lambda>c1 c2.
            \<comment> \<open>\<open>c2 * (c1 * x1)\<close> becomes \<open>(c2 * c1) * x1\<close>\<close>
            bindE (evalBinaryOp w Mul c2 c1) (\<lambda>res. Inr \<lparr> op1' = Mul, val' = res \<rparr>)),
          safetyCondition = (\<lambda>c1 v.
            bindE (ensureInt c1) (\<lambda>n1. bindE (ensureInt v) (\<lambda>res.
              Inr (standardMultiplicativeCondition n1 res)))) \<rparr>)]"

definition rightAssocTransforms :: "nat \<Rightarrow> (binop \<times> (binop \<times> Transform) list) list" where
  "rightAssocTransforms w =
     [(Add, plusRightAssocOperators w),
      (Mul, multiplyRightAssocOperators w)]"

text \<open>
  The trees \<open>c2 op (x1 op1 c1)\<close>, keyed by \<open>op\<close> and then \<open>op1\<close>. There is no table for
  \<open>op = -\<close> either.
\<close>

definition plusRightCommuteOperators :: "nat \<Rightarrow> (binop \<times> Transform) list" where
  "plusRightCommuteOperators w =
      [(Add,
        \<lparr> transform = (\<lambda>c1 c2.
            \<comment> \<open>\<open>c2 + (x1 + c1)\<close> becomes \<open>x1 + (c2 + c1)\<close>\<close>
            bindE (evalBinaryOp w Add c2 c1) (\<lambda>res. Inr \<lparr> op1' = Add, val' = res \<rparr>)),
          safetyCondition = (\<lambda>c1 v.
            bindE (ensureInt c1) (\<lambda>n1. bindE (ensureInt v) (\<lambda>res.
              Inr (standardAdditiveCondition n1 res)))) \<rparr>),
       (Sub,
        \<lparr> transform = (\<lambda>c1 c2.
            \<comment> \<open>\<open>c2 + (x1 - c1)\<close> becomes \<open>x1 - (c1 - c2)\<close>\<close>
            bindE (evalBinaryOp w Sub c1 c2) (\<lambda>res. Inr \<lparr> op1' = Sub, val' = res \<rparr>)),
          safetyCondition = (\<lambda>c1 v.
            bindE (ensureInt c1) (\<lambda>n1. bindE (ensureInt v) (\<lambda>res.
              Inr (standardAdditiveCondition n1 res)))) \<rparr>)]"

definition multiplyRightCommuteOperators :: "nat \<Rightarrow> (binop \<times> Transform) list" where
  "multiplyRightCommuteOperators w =
      [(Mul,
        \<lparr> transform = (\<lambda>c1 c2.
            \<comment> \<open>\<open>c2 * (x1 * c1)\<close> becomes \<open>x1 * (c2 * c1)\<close>\<close>
            bindE (evalBinaryOp w Mul c2 c1) (\<lambda>res. Inr \<lparr> op1' = Mul, val' = res \<rparr>)),
          safetyCondition = (\<lambda>c1 v.
            bindE (ensureInt c1) (\<lambda>n1. bindE (ensureInt v) (\<lambda>res.
              Inr (standardMultiplicativeCondition n1 res)))) \<rparr>)]"

definition rightCommuteTransforms :: "nat \<Rightarrow> (binop \<times> (binop \<times> Transform) list) list" where
  "rightCommuteTransforms w =
     [(Add, plusRightCommuteOperators w),
      (Mul, multiplyRightCommuteOperators w)]"

text \<open>The trees \<open>(c1 op1 x1) op c2\<close>, keyed by \<open>op1\<close> and then \<open>op\<close>.\<close>

definition plusLeftCommuteOperators :: "nat \<Rightarrow> (binop \<times> Transform) list" where
  "plusLeftCommuteOperators w =
      [(Add,
        \<lparr> transform = (\<lambda>c1 c2.
            \<comment> \<open>\<open>(c1 + x1) + c2\<close> becomes \<open>(c1 + c2) + x1\<close>\<close>
            bindE (evalBinaryOp w Add c1 c2) (\<lambda>res. Inr \<lparr> op1' = Add, val' = res \<rparr>)),
          safetyCondition = (\<lambda>c1 v.
            bindE (ensureInt c1) (\<lambda>n1. bindE (ensureInt v) (\<lambda>res.
              Inr (standardAdditiveCondition n1 res)))) \<rparr>),
       (Sub,
        \<lparr> transform = (\<lambda>c1 c2.
            \<comment> \<open>\<open>(c1 + x1) - c2\<close> becomes \<open>(c1 - c2) + x1\<close>\<close>
            bindE (evalBinaryOp w Sub c1 c2) (\<lambda>res. Inr \<lparr> op1' = Add, val' = res \<rparr>)),
          safetyCondition = (\<lambda>c1 v.
            bindE (ensureInt c1) (\<lambda>n1. bindE (ensureInt v) (\<lambda>res.
              Inr (standardAdditiveCondition n1 res)))) \<rparr>)]"

definition minusLeftCommuteOperators :: "nat \<Rightarrow> (binop \<times> Transform) list" where
  "minusLeftCommuteOperators w =
      [(Add,
        \<lparr> transform = (\<lambda>c1 c2.
            \<comment> \<open>\<open>(c1 - x1) + c2\<close> becomes \<open>(c1 + c2) - x1\<close>\<close>
            bindE (evalBinaryOp w Add c1 c2) (\<lambda>res. Inr \<lparr> op1' = Sub, val' = res \<rparr>)),
          safetyCondition = (\<lambda>c1 v.
            bindE (ensureInt c1) (\<lambda>n1. bindE (ensureInt v) (\<lambda>res.
              Inr (standardAdditiveWithZeroCondition n1 res)))) \<rparr>),
       (Sub,
        \<lparr> transform = (\<lambda>c1 c2.
            \<comment> \<open>\<open>(c1 - x1) - c2\<close> becomes \<open>(c1 - c2) - x1\<close>\<close>
            bindE (evalBinaryOp w Sub c1 c2) (\<lambda>res. Inr \<lparr> op1' = Sub, val' = res \<rparr>)),
          safetyCondition = (\<lambda>c1 v.
            bindE (ensureInt c1) (\<lambda>n1. bindE (ensureInt v) (\<lambda>res.
              Inr (standardAdditiveWithZeroCondition n1 res)))) \<rparr>)]"

definition multiplyLeftCommuteOperators :: "nat \<Rightarrow> (binop \<times> Transform) list" where
  "multiplyLeftCommuteOperators w =
      [(Mul,
        \<lparr> transform = (\<lambda>c1 c2.
            \<comment> \<open>\<open>(c1 * x1) * c2\<close> becomes \<open>(c1 * c2) * x1\<close>\<close>
            bindE (evalBinaryOp w Mul c1 c2) (\<lambda>res. Inr \<lparr> op1' = Mul, val' = res \<rparr>)),
          safetyCondition = (\<lambda>c1 v.
            bindE (ensureInt c1) (\<lambda>n1. bindE (ensureInt v) (\<lambda>res.
              Inr (standardMultiplicativeCondition n1 res)))) \<rparr>)]"

definition leftCommuteTransforms :: "nat \<Rightarrow> (binop \<times> (binop \<times> Transform) list) list" where
  "leftCommuteTransforms w =
     [(Add, plusLeftCommuteOperators w),
      (Sub, minusLeftCommuteOperators w),
      (Mul, multiplyLeftCommuteOperators w)]"

definition lookupTransform ::
  "binop \<Rightarrow> binop \<Rightarrow> (binop \<times> (binop \<times> Transform) list) list \<Rightarrow> Transform option" where
  "lookupTransform keyOp1 keyOp2 transforms =
     (case map_of transforms keyOp1 of
        Some intermediateMap \<Rightarrow>
          (case map_of intermediateMap keyOp2 of
             Some t \<Rightarrow> Some t
           | None \<Rightarrow> None)
      | None \<Rightarrow> None)"

definition getLeftAssociativityTransform :: "nat \<Rightarrow> binop \<Rightarrow> binop \<Rightarrow> Transform option" where
  "getLeftAssociativityTransform w keyOp1 keyOp2 =
     lookupTransform keyOp1 keyOp2 (leftAssocTransforms w)"

definition getRightAssociativityTransform :: "nat \<Rightarrow> binop \<Rightarrow> binop \<Rightarrow> Transform option" where
  "getRightAssociativityTransform w keyOp1 keyOp2 =
     lookupTransform keyOp1 keyOp2 (rightAssocTransforms w)"

definition getLeftCommutativityTransform :: "nat \<Rightarrow> binop \<Rightarrow> binop \<Rightarrow> Transform option" where
  "getLeftCommutativityTransform w keyOp1 keyOp2 =
     lookupTransform keyOp1 keyOp2 (leftCommuteTransforms w)"

definition getRightCommutativityTransform :: "nat \<Rightarrow> binop \<Rightarrow> binop \<Rightarrow> Transform option" where
  "getRightCommutativityTransform w keyOp1 keyOp2 =
     lookupTransform keyOp1 keyOp2 (rightCommuteTransforms w)"

subsection \<open>\<^verbatim>\<open>AssociativeRule3\<close>: the rule\<close>

text \<open>
  The getters return \<^verbatim>\<open>undefined\<close> when the table has no entry, and the rule calls
  \<^verbatim>\<open>transform.transform\<close> on the result all the same: on \<^verbatim>\<open>undefined\<close> that call throws,
  inside the \<^verbatim>\<open>try\<close> block.
\<close>

definition deref :: "'a option \<Rightarrow> error + 'a" where
  "deref r = (case r of None \<Rightarrow> Inl UndefinedTransform | Some t \<Rightarrow> Inr t)"

text \<open>
  The \<^verbatim>\<open>try\<close> block of a branch either returns what the optimizer makes of the rewritten
  tree (\<open>Inr (Some result)\<close>), or ends without returning because the safety condition is
  false (\<open>Inr None\<close>), or throws (\<open>Inl e\<close>); in the last two cases control reaches the final
  \<^verbatim>\<open>return ast\<close>.
\<close>

definition applyRule3 :: "nat \<Rightarrow> 's ExpressionTransformer \<Rightarrow> expr \<Rightarrow> 's \<Rightarrow> expr \<times> 's" where
  "applyRule3 w optimizer ast s =
     (if checkIsBinaryOpNode ast then
        (let topLevelNode = ast
         in
         if checkIsBinaryOp_NonValue_Value (left topLevelNode) \<and> isValue (right topLevelNode)
         then
           \<comment> \<open>\<open>(x1 op1 c1) op c2\<close>\<close>
           (let leftTree = left topLevelNode;
                rightTree = right topLevelNode;
                x1 = left leftTree;
                c1 = extractValue (right leftTree);
                op1 = op leftTree;
                c2 = extractValue rightTree;
                op0 = op topLevelNode
            in
            case bindE (deref (getLeftAssociativityTransform w op1 op0)) (\<lambda>t.
                 bindE (transform t c1 c2) (\<lambda>data.
                 bindE (safetyCondition t c1 (val' data)) (\<lambda>safe.
                   if safe
                   then (let newConstant = makeValueExpression (val' data)
                         in Inr (Some (optimizer
                              (makeBinaryExpression (op1' data) x1 newConstant) s)))
                   else Inr None)))
            of Inr (Some result) \<Rightarrow> result
             | _ \<Rightarrow> (ast, s))
         else if checkIsBinaryOp_Value_NonValue (left topLevelNode) \<and> isValue (right topLevelNode)
         then
           \<comment> \<open>\<open>(c1 op1 x1) op c2\<close>\<close>
           (let leftTree = left topLevelNode;
                rightTree = right topLevelNode;
                x1 = right leftTree;
                c1 = extractValue (left leftTree);
                op1 = op leftTree;
                c2 = extractValue rightTree;
                op0 = op topLevelNode
            in
            case bindE (deref (getLeftCommutativityTransform w op1 op0)) (\<lambda>t.
                 bindE (transform t c1 c2) (\<lambda>data.
                 bindE (safetyCondition t c1 (val' data)) (\<lambda>safe.
                   if safe
                   then (let newConstant = makeValueExpression (val' data)
                         in Inr (Some (optimizer
                              (makeBinaryExpression (op1' data) newConstant x1) s)))
                   else Inr None)))
            of Inr (Some result) \<Rightarrow> result
             | _ \<Rightarrow> (ast, s))
         else if isValue (left topLevelNode) \<and> checkIsBinaryOp_NonValue_Value (right topLevelNode)
         then
           \<comment> \<open>\<open>c2 op (x1 op1 c1)\<close>\<close>
           (let leftTree = left topLevelNode;
                rightTree = right topLevelNode;
                x1 = left rightTree;
                c1 = extractValue (right rightTree);
                op1 = op rightTree;
                c2 = extractValue leftTree;
                op0 = op topLevelNode
            in
            case bindE (deref (getRightCommutativityTransform w op0 op1)) (\<lambda>t.
                 bindE (transform t c1 c2) (\<lambda>data.
                 bindE (safetyCondition t c1 (val' data)) (\<lambda>safe.
                   if safe
                   then (let newConstant = makeValueExpression (val' data)
                         in Inr (Some (optimizer
                              (makeBinaryExpression (op1' data) x1 newConstant) s)))
                   else Inr None)))
            of Inr (Some result) \<Rightarrow> result
             | _ \<Rightarrow> (ast, s))
         else if isValue (left topLevelNode) \<and> checkIsBinaryOp_Value_NonValue (right topLevelNode)
         then
           \<comment> \<open>\<open>c2 op (c1 op1 x1)\<close>\<close>
           (let leftTree = left topLevelNode;
                rightTree = right topLevelNode;
                x1 = right rightTree;
                c1 = extractValue (left rightTree);
                op1 = op rightTree;
                c2 = extractValue leftTree;
                op0 = op topLevelNode
            in
            case bindE (deref (getRightAssociativityTransform w op0 op1)) (\<lambda>t.
                 bindE (transform t c1 c2) (\<lambda>data.
                 bindE (safetyCondition t c1 (val' data)) (\<lambda>safe.
                   if safe
                   then (let newConstant = makeValueExpression (val' data)
                         in Inr (Some (optimizer
                              (makeBinaryExpression (op1' data) newConstant x1) s)))
                   else Inr None)))
            of Inr (Some result) \<Rightarrow> result
             | _ \<Rightarrow> (ast, s))
         else (ast, s))
      else (ast, s))"

section \<open>Evaluation of expression trees\<close>

text \<open>Modelled from the spec: the evaluation of an expression tree in an environment
  that binds its free variables, with the external evaluator at every binary node.
  \<open>None\<close> is a trap: an operand that traps, an unbound identifier, or a failure of the
  evaluator (wrong types, division by zero, overflow).\<close>

fun eval :: "nat \<Rightarrow> (string \<times> val) list \<Rightarrow> expr \<Rightarrow> val option" where
  "eval w env (Literal v) = Some v"
| "eval w env (Ident n) = map_of env n"
| "eval w env (OpBinary opr l r) =
     (case eval w env l of
        None \<Rightarrow> None
      | Some a \<Rightarrow>
          (case eval w env r of
             None \<Rightarrow> None
           | Some b \<Rightarrow>
               (case evalBinaryOp w opr a b of Inl e \<Rightarrow> None | Inr v \<Rightarrow> Some v)))"

text \<open>An environment of the language binds an integer variable to a representable
  integer.\<close>

definition representable :: "nat \<Rightarrow> val \<Rightarrow> bool" where
  "representable w v = (case v of VInt i \<Rightarrow> inRange w i | _ \<Rightarrow> True)"

definition wellFormedEnv :: "nat \<Rightarrow> (string \<times> val) list \<Rightarrow> bool" where
  "wellFormedEnv w env = list_all (\<lambda>(n, v). representable w v) env"

text \<open>The number of nodes of a tree.\<close>

fun nodeCount :: "expr \<Rightarrow> nat" where
  "nodeCount (Literal v) = 1"
| "nodeCount (Ident n) = 1"
| "nodeCount (OpBinary opr l r) = 1 + nodeCount l + nodeCount r"

text \<open>An optimizer that records the trees it is called on, in order, and answers with \<open>f\<close>.\<close>

definition recording :: "(expr \<Rightarrow> expr) \<Rightarrow> expr list ExpressionTransformer" where
  "recording f = (\<lambda>e calls. (f e, calls @ [e]))"

text \<open>
  The \<^verbatim>\<open>try\<close> block of a branch of \<^verbatim>\<open>AssociativeRule3\<close> throws: the table has no entry,
  or the fold fails, or the safety condition finds a constant that is not an integer.
\<close>

definition attemptThrows :: "Transform option \<Rightarrow> val \<Rightarrow> val \<Rightarrow> bool" where
  "attemptThrows r c1 c2 =
     (case r of
        None \<Rightarrow> True
      | Some t \<Rightarrow>
          (case transform t c1 c2 of
             Inl e \<Rightarrow> True
           | Inr data \<Rightarrow> isl (safetyCondition t c1 (val' data))))"

text \<open>
  The \<^verbatim>\<open>try\<close> block reaches a safety condition that holds, for the transformation data
  \<open>data\<close>.
\<close>

definition attemptSafe :: "Transform option \<Rightarrow> val \<Rightarrow> val \<Rightarrow> transformationData \<Rightarrow> bool" where
  "attemptSafe r c1 c2 data =
     (case r of
        None \<Rightarrow> False
      | Some t \<Rightarrow> transform t c1 c2 = Inr data \<and> safetyCondition t c1 (val' data) = Inr True)"

text \<open>
  The form that all entries of the four tables share, as a device for the proofs: the
  fold \<open>foldc\<close> of the two constants, the operator \<open>newOp\<close> of the rewritten node and the
  safety condition \<open>cond\<close> on the original and the folded integer.
\<close>

definition tableEntry ::
  "(val \<Rightarrow> val \<Rightarrow> error + val) \<Rightarrow> binop \<Rightarrow> (int \<Rightarrow> int \<Rightarrow> bool) \<Rightarrow> Transform" where
  "tableEntry foldc newOp cond =
     \<lparr> transform = (\<lambda>c1 c2. bindE (foldc c1 c2) (\<lambda>res. Inr \<lparr> op1' = newOp, val' = res \<rparr>)),
       safetyCondition = (\<lambda>c1 v.
         bindE (ensureInt c1) (\<lambda>n1. bindE (ensureInt v) (\<lambda>res. Inr (cond n1 res)))) \<rparr>"

text \<open>Modelled from the spec: the entry point \<^verbatim>\<open>applyRules\<close> of the surrounding optimizer,
  which is not among the sources. By the spec it "synchronously re-runs the full rule
  catalogue" on the node it is given, the optimizer "feeds each binary-operation node to
  each rule in turn", and every rule receives the optimizer, hence \<^verbatim>\<open>applyRules\<close> itself,
  as its callback. The catalogue here is the three rules of this module, in the order of
  the source file; one run of the catalogue already returns a tree that a further run
  leaves unchanged, the "fixpoint-seeking result" of the spec. The recursion
  between \<^verbatim>\<open>applyRules\<close> and the rules is given fuel, one unit for each nested call of
  \<^verbatim>\<open>applyRules\<close>: \<open>None\<close> means that the fuel ran out. The state handed through the
  rules is the flag that no nested call has run out so far.\<close>

fun applyRulesFuel :: "nat \<Rightarrow> nat \<Rightarrow> expr \<Rightarrow> expr option" where
  "applyRulesFuel w 0 ast = None"
| "applyRulesFuel w (Suc n) ast =
     (let applyRules = (\<lambda>t ok. case applyRulesFuel w n t of
                                  Some r \<Rightarrow> (r, ok)
                                | None \<Rightarrow> (t, False));
          (ast1, ok1) = applyRule1 w applyRules ast True;
          (ast2, ok2) = applyRule2 applyRules ast1 ok1;
          (ast3, ok3) = applyRule3 w applyRules ast2 ok2
      in if ok3 then Some ast3 else None)"

section \<open>How the third rule runs on each of its shapes\<close>

lemmas shape_defs = checkIsBinaryOpNode_def checkIsBinaryOp_NonValue_Value_def
  checkIsBinaryOp_Value_NonValue_def isValue_def extractValue_def
  makeValueExpression_def makeBinaryExpression_def

lemma applyRule3_leftAssoc:
  "\<not> isValue x1 \<Longrightarrow>
   applyRule3 w optimizer (OpBinary op0 (OpBinary op1 x1 (Literal c1)) (Literal c2)) s =
     (case getLeftAssociativityTransform w op1 op0 of
        None \<Rightarrow> (OpBinary op0 (OpBinary op1 x1 (Literal c1)) (Literal c2), s)
      | Some t \<Rightarrow>
          (case transform t c1 c2 of
             Inl e \<Rightarrow> (OpBinary op0 (OpBinary op1 x1 (Literal c1)) (Literal c2), s)
           | Inr data \<Rightarrow>
               (case safetyCondition t c1 (val' data) of
                  Inl e \<Rightarrow> (OpBinary op0 (OpBinary op1 x1 (Literal c1)) (Literal c2), s)
                | Inr safe \<Rightarrow>
                    if safe then optimizer (OpBinary (op1' data) x1 (Literal (val' data))) s
                    else (OpBinary op0 (OpBinary op1 x1 (Literal c1)) (Literal c2), s))))"
  by (simp add: applyRule3_def shape_defs bindE_def deref_def Let_def
           split: option.split sum.split)

lemma applyRule3_leftCommute:
  "\<not> isValue x1 \<Longrightarrow>
   applyRule3 w optimizer (OpBinary op0 (OpBinary op1 (Literal c1) x1) (Literal c2)) s =
     (case getLeftCommutativityTransform w op1 op0 of
        None \<Rightarrow> (OpBinary op0 (OpBinary op1 (Literal c1) x1) (Literal c2), s)
      | Some t \<Rightarrow>
          (case transform t c1 c2 of
             Inl e \<Rightarrow> (OpBinary op0 (OpBinary op1 (Literal c1) x1) (Literal c2), s)
           | Inr data \<Rightarrow>
               (case safetyCondition t c1 (val' data) of
                  Inl e \<Rightarrow> (OpBinary op0 (OpBinary op1 (Literal c1) x1) (Literal c2), s)
                | Inr safe \<Rightarrow>
                    if safe then optimizer (OpBinary (op1' data) (Literal (val' data)) x1) s
                    else (OpBinary op0 (OpBinary op1 (Literal c1) x1) (Literal c2), s))))"
  by (simp add: applyRule3_def shape_defs bindE_def deref_def Let_def
           split: option.split sum.split)

lemma applyRule3_rightCommute:
  "\<not> isValue x1 \<Longrightarrow>
   applyRule3 w optimizer (OpBinary op0 (Literal c2) (OpBinary op1 x1 (Literal c1))) s =
     (case getRightCommutativityTransform w op0 op1 of
        None \<Rightarrow> (OpBinary op0 (Literal c2) (OpBinary op1 x1 (Literal c1)), s)
      | Some t \<Rightarrow>
          (case transform t c1 c2 of
             Inl e \<Rightarrow> (OpBinary op0 (Literal c2) (OpBinary op1 x1 (Literal c1)), s)
           | Inr data \<Rightarrow>
               (case safetyCondition t c1 (val' data) of
                  Inl e \<Rightarrow> (OpBinary op0 (Literal c2) (OpBinary op1 x1 (Literal c1)), s)
                | Inr safe \<Rightarrow>
                    if safe then optimizer (OpBinary (op1' data) x1 (Literal (val' data))) s
                    else (OpBinary op0 (Literal c2) (OpBinary op1 x1 (Literal c1)), s))))"
  by (simp add: applyRule3_def shape_defs bindE_def deref_def Let_def
           split: option.split sum.split)

lemma applyRule3_rightAssoc:
  "\<not> isValue x1 \<Longrightarrow>
   applyRule3 w optimizer (OpBinary op0 (Literal c2) (OpBinary op1 (Literal c1) x1)) s =
     (case getRightAssociativityTransform w op0 op1 of
        None \<Rightarrow> (OpBinary op0 (Literal c2) (OpBinary op1 (Literal c1) x1), s)
      | Some t \<Rightarrow>
          (case transform t c1 c2 of
             Inl e \<Rightarrow> (OpBinary op0 (Literal c2) (OpBinary op1 (Literal c1) x1), s)
           | Inr data \<Rightarrow>
               (case safetyCondition t c1 (val' data) of
                  Inl e \<Rightarrow> (OpBinary op0 (Literal c2) (OpBinary op1 (Literal c1) x1), s)
                | Inr safe \<Rightarrow>
                    if safe then optimizer (OpBinary (op1' data) (Literal (val' data)) x1) s
                    else (OpBinary op0 (Literal c2) (OpBinary op1 (Literal c1) x1), s))))"
  by (simp add: applyRule3_def shape_defs bindE_def deref_def Let_def
           split: option.split sum.split)


lemma isValue_shape: "isValue r \<Longrightarrow> \<exists>c. r = Literal c"
  by (cases r) (simp_all add: isValue_def)

lemma NonValue_Value_shape:
  "checkIsBinaryOp_NonValue_Value l \<Longrightarrow>
     \<exists>op1 x1 c1. l = OpBinary op1 x1 (Literal c1) \<and> \<not> isValue x1"
proof (cases l)
  case (OpBinary op1 a b)
  assume "checkIsBinaryOp_NonValue_Value l"
  then have "\<not> isValue a" and "isValue b"
    by (simp_all add: OpBinary checkIsBinaryOp_NonValue_Value_def)
  then show ?thesis using OpBinary isValue_shape [of b] by auto
qed (simp_all add: checkIsBinaryOp_NonValue_Value_def)

lemma Value_NonValue_shape:
  "checkIsBinaryOp_Value_NonValue l \<Longrightarrow>
     \<exists>op1 x1 c1. l = OpBinary op1 (Literal c1) x1 \<and> \<not> isValue x1"
proof (cases l)
  case (OpBinary op1 a b)
  assume "checkIsBinaryOp_Value_NonValue l"
  then have "isValue a" and "\<not> isValue b"
    by (simp_all add: OpBinary checkIsBinaryOp_Value_NonValue_def)
  then show ?thesis using OpBinary isValue_shape [of a] by auto
qed (simp_all add: checkIsBinaryOp_Value_NonValue_def)

lemma applyRule3_noShape:
  assumes "\<not> (checkIsBinaryOp_NonValue_Value (left ast) \<and> isValue (right ast))"
    and "\<not> (checkIsBinaryOp_Value_NonValue (left ast) \<and> isValue (right ast))"
    and "\<not> (isValue (left ast) \<and> checkIsBinaryOp_NonValue_Value (right ast))"
    and "\<not> (isValue (left ast) \<and> checkIsBinaryOp_Value_NonValue (right ast))"
  shows "applyRule3 w optimizer ast s = (ast, s)"
proof -
  have g: "(checkIsBinaryOp_NonValue_Value (left ast) \<and> isValue (right ast)) = False"
    "(checkIsBinaryOp_Value_NonValue (left ast) \<and> isValue (right ast)) = False"
    "(isValue (left ast) \<and> checkIsBinaryOp_NonValue_Value (right ast)) = False"
    "(isValue (left ast) \<and> checkIsBinaryOp_Value_NonValue (right ast)) = False"
    using assms by simp_all
  show ?thesis
    unfolding applyRule3_def Let_def by (simp only: g if_False if_cancel)
qed

lemma applyRule3_notBinary:
  "\<not> checkIsBinaryOpNode ast \<Longrightarrow> applyRule3 w optimizer ast s = (ast, s)"
  unfolding applyRule3_def by simp

section \<open>The entries of the four tables\<close>

lemmas table_defs = lookupTransform_def
  getLeftAssociativityTransform_def getRightAssociativityTransform_def
  getLeftCommutativityTransform_def getRightCommutativityTransform_def
  leftAssocTransforms_def rightAssocTransforms_def
  leftCommuteTransforms_def rightCommuteTransforms_def
  plusLeftAssocOperators_def minusLeftAssocOperators_def multiplyLeftAssocOperators_def
  plusRightAssocOperators_def multiplyRightAssocOperators_def
  plusRightCommuteOperators_def multiplyRightCommuteOperators_def
  plusLeftCommuteOperators_def minusLeftCommuteOperators_def multiplyLeftCommuteOperators_def

lemma getLeftAssociativity_cases:
  "getLeftAssociativityTransform w a b = Some t \<Longrightarrow>
     a = Add \<and> b = Add \<and> t = tableEntry (\<lambda>c1 c2. evalBinaryOp w Add c1 c2) Add standardAdditiveCondition \<or>
     a = Add \<and> b = Sub \<and> t = tableEntry (\<lambda>c1 c2. evalBinaryOp w Sub c1 c2) Add standardAdditiveCondition \<or>
     a = Sub \<and> b = Add \<and> t = tableEntry (\<lambda>c1 c2. evalBinaryOp w Sub c1 c2) Sub standardAdditiveCondition \<or>
     a = Sub \<and> b = Sub \<and> t = tableEntry (\<lambda>c1 c2. evalBinaryOp w Add c1 c2) Sub standardAdditiveCondition \<or>
     a = Mul \<and> b = Mul \<and> t = tableEntry (\<lambda>c1 c2. evalBinaryOp w Mul c1 c2) Mul standardMultiplicativeCondition"
  by (cases a; cases b) (auto simp: table_defs tableEntry_def)

lemma getLeftCommutativity_cases:
  "getLeftCommutativityTransform w a b = Some t \<Longrightarrow>
     a = Add \<and> b = Add \<and> t = tableEntry (\<lambda>c1 c2. evalBinaryOp w Add c1 c2) Add standardAdditiveCondition \<or>
     a = Add \<and> b = Sub \<and> t = tableEntry (\<lambda>c1 c2. evalBinaryOp w Sub c1 c2) Add standardAdditiveCondition \<or>
     a = Sub \<and> b = Add \<and> t = tableEntry (\<lambda>c1 c2. evalBinaryOp w Add c1 c2) Sub standardAdditiveWithZeroCondition \<or>
     a = Sub \<and> b = Sub \<and> t = tableEntry (\<lambda>c1 c2. evalBinaryOp w Sub c1 c2) Sub standardAdditiveWithZeroCondition \<or>
     a = Mul \<and> b = Mul \<and> t = tableEntry (\<lambda>c1 c2. evalBinaryOp w Mul c1 c2) Mul standardMultiplicativeCondition"
  by (cases a; cases b) (auto simp: table_defs tableEntry_def)

lemma getRightCommutativity_cases:
  "getRightCommutativityTransform w a b = Some t \<Longrightarrow>
     a = Add \<and> b = Add \<and> t = tableEntry (\<lambda>c1 c2. evalBinaryOp w Add c2 c1) Add standardAdditiveCondition \<or>
     a = Add \<and> b = Sub \<and> t = tableEntry (\<lambda>c1 c2. evalBinaryOp w Sub c1 c2) Sub standardAdditiveCondition \<or>
     a = Mul \<and> b = Mul \<and> t = tableEntry (\<lambda>c1 c2. evalBinaryOp w Mul c2 c1) Mul standardMultiplicativeCondition"
  by (cases a; cases b) (auto simp: table_defs tableEntry_def)

lemma getRightAssociativity_cases:
  "getRightAssociativityTransform w a b = Some t \<Longrightarrow>
     a = Add \<and> b = Add \<and> t = tableEntry (\<lambda>c1 c2. evalBinaryOp w Add c2 c1) Add standardAdditiveCondition \<or>
     a = Add \<and> b = Sub \<and> t = tableEntry (\<lambda>c1 c2. evalBinaryOp w Add c2 c1) Sub standardAdditiveWithZeroCondition \<or>
     a = Mul \<and> b = Mul \<and> t = tableEntry (\<lambda>c1 c2. evalBinaryOp w Mul c2 c1) Mul standardMultiplicativeCondition"
  by (cases a; cases b) (auto simp: table_defs tableEntry_def)

lemma right_tables_no_Sub:
  "getRightCommutativityTransform w Sub b = None"
  "getRightAssociativityTransform w Sub b = None"
  by (simp_all add: table_defs)

section \<open>The operator tables of the first two rules\<close>

lemma areAssociative_iff:
  "areAssociative a b =
     (a = Add \<and> (b = Add \<or> b = Sub) \<or> a = Mul \<and> (b = Mul \<or> b = Shl))"
  by (cases a)
     (auto simp: areAssociative_def associativeOps_def additiveAssoc_def
        multiplicativeAssoc_def)

lemma areAllowedOps2: "areAllowedOps [a, b] = (isAllowedOp a \<and> isAllowedOp b)"
  by (simp add: areAllowedOps_def isAllowedOp_def)

lemma areAllowedOps3:
  "areAllowedOps [a, b, c] = (isAllowedOp a \<and> isAllowedOp b \<and> isAllowedOp c)"
  by (simp add: areAllowedOps_def isAllowedOp_def)

lemma allowed_not_associative: "isAllowedOp a \<Longrightarrow> \<not> areAssociative a b"
  by (auto simp: areAssociative_iff isAllowedOp_def allowedOps_def)

lemma rule1_guards:
  "(areAllowedOps [op1, op0, op2] \<and> areAssociative op1 op0 \<and> areAssociative op0 op2 \<and>
    isCommutative op0) = False"
  "(areAllowedOps [op1, op0, op2] \<and> areAssociative op1 op0 \<and> areAssociative op0 op2) = False"
  "(areAllowedOps [op1, op0, op2] \<and> areAssociative op0 op1 \<and> areAssociative op2 op0 \<and>
    isCommutative op0) = False"
  using allowed_not_associative by (auto simp: areAllowedOps3)

lemma rule2_guards:
  "(areAllowedOps [op1, op0] \<and> areAssociative op1 op0 \<and> isCommutative op0) = False"
  "(areAllowedOps [op1, op0] \<and> areAssociative op1 op0) = False"
  "(areAllowedOps [op0, op1] \<and> areAssociative op0 op1 \<and> isCommutative op0) = False"
  using allowed_not_associative by (auto simp: areAllowedOps2)

text \<open>
  Claim C2. Whatever the input expression and whatever the optimizer callback,
  \<^verbatim>\<open>AssociativeRule1.applyRule\<close> and \<^verbatim>\<open>AssociativeRule2.applyRule\<close> return the input
  unchanged, and they leave the state of the optimizer as it was: they never call it.
  The reason is in the tables: an operator of the allowed set \<open>{&&, ||}\<close> is never the
  left key of the associativity table, whose keys are \<open>+\<close> and \<open>*\<close>, so the
  \<open>areAssociative\<close> test of every branch is false.
\<close>

theorem rules_1_2_dormant:
  "applyRule1 w optimizer ast s = (ast, s) \<and>
   applyRule2 optimizer ast s = (ast, s) \<and>
   (isAllowedOp a \<longrightarrow> \<not> areAssociative a b)"
proof (intro conjI)
  show "applyRule1 w optimizer ast s = (ast, s)"
    unfolding applyRule1_def Let_def by (simp only: rule1_guards if_False if_cancel)
  show "applyRule2 optimizer ast s = (ast, s)"
    unfolding applyRule2_def Let_def by (simp only: rule2_guards if_False if_cancel)
  show "isAllowedOp a \<longrightarrow> \<not> areAssociative a b"
    using allowed_not_associative by blast
qed

theorem rules_1_2_dormant_witness:
  "isAllowedOp AndAnd \<and> \<not> areAssociative AndAnd AndAnd \<and>
   applyRule1 256 (recording (\<lambda>e. e))
     (OpBinary AndAnd (OpBinary AndAnd (Ident ''a'') (Literal (VBool True)))
                      (OpBinary AndAnd (Ident ''b'') (Literal (VBool True)))) [] =
     (OpBinary AndAnd (OpBinary AndAnd (Ident ''a'') (Literal (VBool True)))
                      (OpBinary AndAnd (Ident ''b'') (Literal (VBool True))), []) \<and>
   applyRule2 (recording (\<lambda>e. e))
     (OpBinary OrOr (OpBinary OrOr (Ident ''a'') (Literal (VBool False))) (Ident ''b'')) [] =
     (OpBinary OrOr (OpBinary OrOr (Ident ''a'') (Literal (VBool False))) (Ident ''b''), [])"
  using rules_1_2_dormant [of 256 "recording (\<lambda>e. e)"
      "OpBinary AndAnd (OpBinary AndAnd (Ident ''a'') (Literal (VBool True)))
                      (OpBinary AndAnd (Ident ''b'') (Literal (VBool True)))"
      "[]" AndAnd AndAnd]
    rules_1_2_dormant [of 256 "recording (\<lambda>e. e)"
      "OpBinary OrOr (OpBinary OrOr (Ident ''a'') (Literal (VBool False))) (Ident ''b'')"
      "[]" AndAnd AndAnd]
  by (simp add: isAllowedOp_def allowedOps_def)

section \<open>The safety conditions\<close>

lemmas cond_defs = standardAdditiveCondition_def standardAdditiveWithZeroCondition_def
  standardMultiplicativeCondition_def sign_def abs_big_def

text \<open>
  Claim C10. For all integers \<open>c1\<close> and \<open>v\<close>: when \<open>standardAdditiveWithZeroCondition c1 v\<close>
  holds, so does \<open>standardAdditiveCondition c1 v\<close>, and the two conditions differ exactly
  when \<open>c1 = 0\<close> and \<open>v < 0\<close>. Such inputs exist, so the condition with zero is strictly
  stronger.
\<close>

theorem withZero_strengthens_additive:
  "(standardAdditiveWithZeroCondition c1 v \<longrightarrow> standardAdditiveCondition c1 v) \<and>
   ((standardAdditiveWithZeroCondition c1 v \<noteq> standardAdditiveCondition c1 v) =
      (c1 = 0 \<and> v < 0)) \<and>
   (\<exists>c u. standardAdditiveCondition c u \<and> \<not> standardAdditiveWithZeroCondition c u)"
proof (intro conjI)
  show "\<exists>c u. standardAdditiveCondition c u \<and> \<not> standardAdditiveWithZeroCondition c u"
    by (rule exI [of _ 0], rule exI [of _ "- 1"]) (simp add: cond_defs)
qed (auto simp: cond_defs)

theorem withZero_strengthens_additive_witness:
  "standardAdditiveWithZeroCondition 2 5 \<and> standardAdditiveCondition 2 5 \<and>
   standardAdditiveWithZeroCondition 0 (- 1) \<noteq> standardAdditiveCondition 0 (- 1)"
  using withZero_strengthens_additive [of 2 5] withZero_strengthens_additive [of 0 "- 1"]
  by (simp add: cond_defs)

section \<open>The third rule: missing entries and blocked folds\<close>

lemma applyRule3_literals_left:
  "applyRule3 w optimizer (OpBinary op0 (OpBinary op1 (Literal a) (Literal b)) (Literal c)) s =
     (OpBinary op0 (OpBinary op1 (Literal a) (Literal b)) (Literal c), s)"
  by (rule applyRule3_noShape) (simp_all add: shape_defs)

lemma applyRule3_literals_right:
  "applyRule3 w optimizer (OpBinary op0 (Literal c) (OpBinary op1 (Literal a) (Literal b))) s =
     (OpBinary op0 (Literal c) (OpBinary op1 (Literal a) (Literal b)), s)"
  by (rule applyRule3_noShape) (simp_all add: shape_defs)

text \<open>
  Claim C6. On each of the four shapes of \<^verbatim>\<open>AssociativeRule3\<close>, when the table of that
  topology has no entry for the operator pair, \<open>applyRule\<close> returns the input unchanged
  and does not call the optimizer, whatever the operands are. The tables of the two
  right-hand topologies have no entry with subtraction as the outer operator, so
  \<open>c2 - (x1 op1 c1)\<close> and \<open>c2 - (c1 op1 x1)\<close> are returned unchanged for every \<open>op1\<close>.
\<close>

theorem no_table_entry_unchanged:
  "(getLeftAssociativityTransform w op1 op0 = None \<longrightarrow>
      applyRule3 w optimizer (OpBinary op0 (OpBinary op1 x1 (Literal c1)) (Literal c2)) s =
        (OpBinary op0 (OpBinary op1 x1 (Literal c1)) (Literal c2), s)) \<and>
   (getLeftCommutativityTransform w op1 op0 = None \<longrightarrow>
      applyRule3 w optimizer (OpBinary op0 (OpBinary op1 (Literal c1) x1) (Literal c2)) s =
        (OpBinary op0 (OpBinary op1 (Literal c1) x1) (Literal c2), s)) \<and>
   (getRightCommutativityTransform w op0 op1 = None \<longrightarrow>
      applyRule3 w optimizer (OpBinary op0 (Literal c2) (OpBinary op1 x1 (Literal c1))) s =
        (OpBinary op0 (Literal c2) (OpBinary op1 x1 (Literal c1)), s)) \<and>
   (getRightAssociativityTransform w op0 op1 = None \<longrightarrow>
      applyRule3 w optimizer (OpBinary op0 (Literal c2) (OpBinary op1 (Literal c1) x1)) s =
        (OpBinary op0 (Literal c2) (OpBinary op1 (Literal c1) x1), s)) \<and>
   getRightCommutativityTransform w Sub op1 = None \<and>
   getRightAssociativityTransform w Sub op1 = None \<and>
   applyRule3 w optimizer (OpBinary Sub (Literal c2) (OpBinary op1 x1 (Literal c1))) s =
     (OpBinary Sub (Literal c2) (OpBinary op1 x1 (Literal c1)), s) \<and>
   applyRule3 w optimizer (OpBinary Sub (Literal c2) (OpBinary op1 (Literal c1) x1)) s =
     (OpBinary Sub (Literal c2) (OpBinary op1 (Literal c1) x1), s)"
proof (cases "isValue x1")
  case True
  then obtain a where "x1 = Literal a" using isValue_shape by blast
  then show ?thesis
    by (simp add: applyRule3_literals_left applyRule3_literals_right right_tables_no_Sub)
next
  case False
  then show ?thesis
    by (simp add: applyRule3_leftAssoc applyRule3_leftCommute applyRule3_rightCommute
          applyRule3_rightAssoc right_tables_no_Sub)
qed

theorem no_table_entry_unchanged_witness:
  "getLeftAssociativityTransform 256 Div Add = None \<and>
   applyRule3 256 (recording (\<lambda>e. e))
     (OpBinary Add (OpBinary Div (Ident ''x'') (Literal (VInt 4))) (Literal (VInt 2))) [] =
     (OpBinary Add (OpBinary Div (Ident ''x'') (Literal (VInt 4))) (Literal (VInt 2)), []) \<and>
   applyRule3 256 (recording (\<lambda>e. e))
     (OpBinary Sub (Literal (VInt 9)) (OpBinary Add (Ident ''x'') (Literal (VInt 4)))) [] =
     (OpBinary Sub (Literal (VInt 9)) (OpBinary Add (Ident ''x'') (Literal (VInt 4))), [])"
  using no_table_entry_unchanged [of 256 Div Add "recording (\<lambda>e. e)" "Ident ''x''" "VInt 4" "VInt 2" "[]"]
    no_table_entry_unchanged [of 256 Add Add "recording (\<lambda>e. e)" "Ident ''x''" "VInt 4" "VInt 9" "[]"]
  by (simp add: table_defs)

text \<open>
  Claim C7. For the input \<open>(x + 5) - 8\<close> with \<open>x\<close> not a literal, \<open>applyRule\<close> of
  \<^verbatim>\<open>AssociativeRule3\<close> returns the tree unchanged, for every integer width and every
  optimizer: the folded value would be \<open>5 - 8 = -3\<close>, of the sign opposite to that of \<open>5\<close>,
  and the additive safety condition fails.
\<close>

theorem scenario2_unsafe_fold_blocked:
  "\<not> isValue x \<Longrightarrow>
   applyRule3 w optimizer
     (OpBinary Sub (OpBinary Add x (Literal (VInt 5))) (Literal (VInt 8))) s =
     (OpBinary Sub (OpBinary Add x (Literal (VInt 5))) (Literal (VInt 8)), s) \<and>
   \<not> standardAdditiveCondition 5 (5 - 8)"
  by (simp add: applyRule3_leftAssoc table_defs bindE_def evalBinaryOp_def intOp_def
        checkedInt_def ensureInt_def cond_defs)

theorem scenario2_unsafe_fold_blocked_witness:
  "\<not> isValue (Ident ''x'') \<and>
   applyRule3 256 (recording (\<lambda>e. e))
     (OpBinary Sub (OpBinary Add (Ident ''x'') (Literal (VInt 5))) (Literal (VInt 8))) [] =
     (OpBinary Sub (OpBinary Add (Ident ''x'') (Literal (VInt 5))) (Literal (VInt 8)), [])"
  using scenario2_unsafe_fold_blocked [of "Ident ''x''" 256 "recording (\<lambda>e. e)" "[]"]
  by (simp add: isValue_def)

lemmas eval_defs = evalBinaryOp_def intOp_def checkedInt_def ensureInt_def bindE_def

section \<open>The third rule: successful folds\<close>

text \<open>
  Claim C3 says that \<open>(x + 0) - 3\<close> is returned unchanged. It is not: the entry for
  \<open>(x1 + c1) - c2\<close> uses the plain additive condition, which holds whenever \<open>c1 = 0\<close>, so
  the rule hands \<open>x + (-3)\<close> to the optimizer.
\<close>

theorem scenario4_counterexample:
  "applyRule3 256 (recording (\<lambda>e. e))
     (OpBinary Sub (OpBinary Add (Ident ''x'') (Literal (VInt 0))) (Literal (VInt 3))) [] \<noteq>
     (OpBinary Sub (OpBinary Add (Ident ''x'') (Literal (VInt 0))) (Literal (VInt 3)), [])"
  by (simp add: applyRule3_leftAssoc isValue_def table_defs eval_defs inRange_def cond_defs
        recording_def)

text \<open>
  Claim C3, amended. For the input \<open>(x + 0) - 3\<close> with \<open>x\<close> not a literal, \<open>applyRule\<close> of
  \<^verbatim>\<open>AssociativeRule3\<close> returns what the optimizer makes of \<open>x + (-3)\<close>, provided \<open>-3\<close> is
  representable (otherwise the fold fails and the tree is unchanged): the original
  constant is zero, and the plain additive safety condition of this entry holds then.
\<close>

theorem scenario4_zero_constant_folds:
  "\<not> isValue x \<Longrightarrow>
   applyRule3 w optimizer
     (OpBinary Sub (OpBinary Add x (Literal (VInt 0))) (Literal (VInt 3))) s =
     (if inRange w (- 3)
      then optimizer (OpBinary Add x (Literal (VInt (- 3)))) s
      else (OpBinary Sub (OpBinary Add x (Literal (VInt 0))) (Literal (VInt 3)), s)) \<and>
   standardAdditiveCondition 0 (0 - 3)"
  by (simp add: applyRule3_leftAssoc table_defs eval_defs cond_defs)

theorem scenario4_zero_constant_folds_witness:
  "\<not> isValue (Ident ''x'') \<and> inRange 256 (- 3) \<and>
   applyRule3 256 (recording (\<lambda>e. e))
     (OpBinary Sub (OpBinary Add (Ident ''x'') (Literal (VInt 0))) (Literal (VInt 3))) [] =
     (OpBinary Add (Ident ''x'') (Literal (VInt (- 3))),
      [OpBinary Add (Ident ''x'') (Literal (VInt (- 3)))])"
  using scenario4_zero_constant_folds [of "Ident ''x''" 256 "recording (\<lambda>e. e)" "[]"]
  by (simp add: isValue_def inRange_def recording_def)

text \<open>
  Claim C8. For the input \<open>(2 * x) * 3\<close> with \<open>x\<close> not a literal, when the callback of the
  optimizer returns its argument unchanged (and \<open>6\<close> is a representable integer),
  \<open>applyRule\<close> of \<^verbatim>\<open>AssociativeRule3\<close> produces \<open>6 * x\<close>: the entry for \<open>(c1 * x1) * c2\<close>
  folds \<open>2 * 3 = 6\<close>, and the multiplicative safety condition holds for \<open>2\<close> and \<open>6\<close>.
\<close>

theorem scenario3_multiplicative_fold:
  "\<not> isValue x \<Longrightarrow> inRange w 6 \<Longrightarrow> (\<And>e t. fst (optimizer e t) = e) \<Longrightarrow>
   fst (applyRule3 w optimizer
     (OpBinary Mul (OpBinary Mul (Literal (VInt 2)) x) (Literal (VInt 3))) s) =
     OpBinary Mul (Literal (VInt 6)) x \<and>
   standardMultiplicativeCondition 2 (2 * 3)"
  by (simp add: applyRule3_leftCommute table_defs eval_defs cond_defs)

theorem scenario3_multiplicative_fold_witness:
  "\<not> isValue (Ident ''x'') \<and> inRange 256 6 \<and> (\<forall>e t. fst (recording (\<lambda>e. e) e t) = e) \<and>
   fst (applyRule3 256 (recording (\<lambda>e. e))
     (OpBinary Mul (OpBinary Mul (Literal (VInt 2)) (Ident ''x'')) (Literal (VInt 3))) []) =
     OpBinary Mul (Literal (VInt 6)) (Ident ''x'')"
proof -
  have a: "\<not> isValue (Ident ''x'')" by (simp add: isValue_def)
  have b: "inRange 256 6" by (simp add: inRange_def)
  have c: "\<And>e t. fst (recording (\<lambda>e. e) e t) = e" by (simp add: recording_def)
  show ?thesis
    using a b c scenario3_multiplicative_fold [OF a b c, where s = "[]"] by simp
qed

text \<open>
  Claim C4 says that on success the result is the tree \<open>newOperator(unknown, folded)\<close>
  itself and that the optimizer is not called. For \<open>(x + 5) + 3\<close> the safety condition
  holds, and yet with an optimizer that answers \<open>null\<close> the result is not \<open>x + 8\<close>, and
  the optimizer has been called.
\<close>

theorem success_result_counterexample:
  "attemptSafe (getLeftAssociativityTransform 256 Add Add) (VInt 5) (VInt 3)
     \<lparr> op1' = Add, val' = VInt 8 \<rparr> \<and>
   fst (applyRule3 256 (recording (\<lambda>e. Literal VNull))
     (OpBinary Add (OpBinary Add (Ident ''x'') (Literal (VInt 5))) (Literal (VInt 3))) []) \<noteq>
     OpBinary Add (Ident ''x'') (Literal (VInt 8)) \<and>
   snd (applyRule3 256 (recording (\<lambda>e. Literal VNull))
     (OpBinary Add (OpBinary Add (Ident ''x'') (Literal (VInt 5))) (Literal (VInt 3))) []) \<noteq> []"
  by (simp add: applyRule3_leftAssoc isValue_def attemptSafe_def table_defs eval_defs
        inRange_def cond_defs recording_def)

text \<open>
  Claim C4, amended. Whenever the safety condition of \<^verbatim>\<open>AssociativeRule3\<close> holds for a
  matched shape, the rule calls \<open>optimizer.applyRules\<close> once, on the tree
  \<open>newOperator(unknown, foldedLiteral)\<close> (the literal on the right for the shapes
  \<open>(x1 op1 c1) op c2\<close> and \<open>c2 op (x1 op1 c1)\<close>, on the left for the other two), and
  returns what that call returns.
\<close>

theorem success_result_is_reoptimized:
  "\<not> isValue x1 \<Longrightarrow>
   (attemptSafe (getLeftAssociativityTransform w op1 op0) c1 c2 d \<longrightarrow>
      applyRule3 w optimizer (OpBinary op0 (OpBinary op1 x1 (Literal c1)) (Literal c2)) s =
        optimizer (OpBinary (op1' d) x1 (Literal (val' d))) s) \<and>
   (attemptSafe (getLeftCommutativityTransform w op1 op0) c1 c2 d \<longrightarrow>
      applyRule3 w optimizer (OpBinary op0 (OpBinary op1 (Literal c1) x1) (Literal c2)) s =
        optimizer (OpBinary (op1' d) (Literal (val' d)) x1) s) \<and>
   (attemptSafe (getRightCommutativityTransform w op0 op1) c1 c2 d \<longrightarrow>
      applyRule3 w optimizer (OpBinary op0 (Literal c2) (OpBinary op1 x1 (Literal c1))) s =
        optimizer (OpBinary (op1' d) x1 (Literal (val' d))) s) \<and>
   (attemptSafe (getRightAssociativityTransform w op0 op1) c1 c2 d \<longrightarrow>
      applyRule3 w optimizer (OpBinary op0 (Literal c2) (OpBinary op1 (Literal c1) x1)) s =
        optimizer (OpBinary (op1' d) (Literal (val' d)) x1) s)"
  by (simp add: applyRule3_leftAssoc applyRule3_leftCommute applyRule3_rightCommute
        applyRule3_rightAssoc attemptSafe_def split: option.split)

theorem success_result_is_reoptimized_witness:
  "\<not> isValue (Ident ''x'') \<and>
   attemptSafe (getLeftAssociativityTransform 256 Add Add) (VInt 5) (VInt 3)
     \<lparr> op1' = Add, val' = VInt 8 \<rparr> \<and>
   applyRule3 256 (recording (\<lambda>e. Literal VNull))
     (OpBinary Add (OpBinary Add (Ident ''x'') (Literal (VInt 5))) (Literal (VInt 3))) [] =
     (Literal VNull, [OpBinary Add (Ident ''x'') (Literal (VInt 8))])"
proof -
  have a: "\<not> isValue (Ident ''x'')" by (simp add: isValue_def)
  have b: "attemptSafe (getLeftAssociativityTransform 256 Add Add) (VInt 5) (VInt 3)
     \<lparr> op1' = Add, val' = VInt 8 \<rparr>"
    by (simp add: attemptSafe_def table_defs eval_defs inRange_def cond_defs)
  show ?thesis
    using a b success_result_is_reoptimized [OF a, of 256 Add Add "VInt 5" "VInt 3"
        "\<lparr> op1' = Add, val' = VInt 8 \<rparr>" "recording (\<lambda>e. Literal VNull)" "[]"]
    by (simp add: recording_def)
qed

section \<open>Soundness of the folds\<close>

lemma evalBinaryOp_inRange:
  "evalBinaryOp w opr a b = Inr (VInt i) \<Longrightarrow> inRange w i"
  by (cases opr; cases a; cases b)
     (auto simp: evalBinaryOp_def intOp_def intDivOp_def intShiftOp_def intCmpOp_def
        boolOp_def checkedInt_def split: if_splits)

lemma nonliteral_inRange:
  assumes "\<not> isValue x" and "wellFormedEnv w env" and "eval w env x = Some (VInt i)"
  shows "inRange w i"
proof (cases x)
  case (Literal v)
  then show ?thesis using assms(1) by (simp add: isValue_def)
next
  case (Ident n)
  then have "(n, VInt i) \<in> set env" using assms(3) by (simp add: map_of_SomeD)
  then have "representable w (VInt i)"
    using assms(2) by (auto simp: wellFormedEnv_def list_all_iff)
  then show ?thesis by (simp add: representable_def)
next
  case (OpBinary opr l r)
  then show ?thesis
    using assms(3) evalBinaryOp_inRange
    by (auto split: option.splits sum.splits)
qed

lemma mult_core:
  assumes "inRange w (p * c)" and "1 \<le> c \<or> c \<le> - 2"
  shows "inRange w p"
proof -
  have M: "(0::int) < 2 ^ w" by simp
  from assms(1) have lo: "- (2 ^ w) \<le> p * c" and hi: "p * c < 2 ^ w"
    by (simp_all add: inRange_def)
  from assms(2) show ?thesis
  proof
    assume c: "1 \<le> c"
    show ?thesis
    proof (cases "0 \<le> p")
      case True
      then have "0 \<le> p * (c - 1)" using c by simp
      then have "p \<le> p * c" by (simp add: algebra_simps)
      then show ?thesis unfolding inRange_def using True hi M by linarith
    next
      case False
      then have "p * (c - 1) \<le> 0" using c by (simp add: mult_nonpos_nonneg)
      then have "p * c \<le> p" by (simp add: algebra_simps)
      then show ?thesis unfolding inRange_def using False lo M by linarith
    qed
  next
    assume c: "c \<le> - 2"
    have up: "p < 2 ^ w"
    proof (rule ccontr)
      assume "\<not> p < 2 ^ w"
      then have p: "2 ^ w \<le> p" by simp
      then have "0 \<le> p" using M by linarith
      then have "p * (c + 2) \<le> 0" using c by (simp add: mult_nonneg_nonpos)
      then have "p * c \<le> - 2 * p" by (simp add: algebra_simps)
      then show False using lo p M by linarith
    qed
    have down: "- (2 ^ w) \<le> p"
    proof (rule ccontr)
      assume "\<not> - (2 ^ w) \<le> p"
      then have p: "p < - (2 ^ w)" by simp
      then have "p \<le> 0" using M by linarith
      then have "0 \<le> p * (c + 2)" using c by (simp add: mult_nonpos_nonpos)
      then have "- 2 * p \<le> p * c" by (simp add: algebra_simps)
      then show False using hi p M by linarith
    qed
    show ?thesis unfolding inRange_def using up down by linarith
  qed
qed

lemma mult_cond_factor:
  assumes "standardMultiplicativeCondition a (a * b)" and "a \<noteq> 0"
  shows "1 \<le> b \<or> b \<le> - 2"
proof -
  have b0: "b \<noteq> 0" using assms by (auto simp: cond_defs split: if_splits)
  have b1: "b \<noteq> - 1" using assms by (auto simp: cond_defs split: if_splits)
  show ?thesis using b0 b1 by linarith
qed


lemma entry_facts:
  assumes "transform (tableEntry foldc newOp cond) c1 c2 = Inr d"
    and "safetyCondition (tableEntry foldc newOp cond) c1 (val' d) = Inr True"
  shows "\<exists>a r. c1 = VInt a \<and> foldc c1 c2 = Inr (VInt r) \<and>
           d = \<lparr> op1' = newOp, val' = VInt r \<rparr> \<and> cond a r"
  using assms
  by (auto simp: tableEntry_def bindE_def ensureInt_def split: sum.splits val.splits)

lemma evalBinaryOp_Add_Inr:
  "evalBinaryOp w Add x y = Inr (VInt r) \<Longrightarrow>
     \<exists>a b. x = VInt a \<and> y = VInt b \<and> r = a + b \<and> inRange w r"
  by (cases x; cases y) (auto simp: evalBinaryOp_def intOp_def checkedInt_def split: if_splits)

lemma evalBinaryOp_Sub_Inr:
  "evalBinaryOp w Sub x y = Inr (VInt r) \<Longrightarrow>
     \<exists>a b. x = VInt a \<and> y = VInt b \<and> r = a - b \<and> inRange w r"
  by (cases x; cases y) (auto simp: evalBinaryOp_def intOp_def checkedInt_def split: if_splits)

lemma evalBinaryOp_Mul_Inr:
  "evalBinaryOp w Mul x y = Inr (VInt r) \<Longrightarrow>
     \<exists>a b. x = VInt a \<and> y = VInt b \<and> r = a * b \<and> inRange w r"
  by (cases x; cases y) (auto simp: evalBinaryOp_def intOp_def checkedInt_def split: if_splits)

text \<open>The evaluation of a sum, a difference and a product, spelt out.\<close>

lemma eval_Add_int:
  "eval w env (OpBinary Add l r) =
     (case eval w env l of
        Some (VInt a) \<Rightarrow>
          (case eval w env r of
             Some (VInt b) \<Rightarrow> if inRange w (a + b) then Some (VInt (a + b)) else None
           | _ \<Rightarrow> None)
      | _ \<Rightarrow> None)"
  by (simp add: evalBinaryOp_def intOp_def checkedInt_def split: option.split val.split)

lemma eval_Sub_int:
  "eval w env (OpBinary Sub l r) =
     (case eval w env l of
        Some (VInt a) \<Rightarrow>
          (case eval w env r of
             Some (VInt b) \<Rightarrow> if inRange w (a - b) then Some (VInt (a - b)) else None
           | _ \<Rightarrow> None)
      | _ \<Rightarrow> None)"
  by (simp add: evalBinaryOp_def intOp_def checkedInt_def split: option.split val.split)

lemma eval_Mul_int:
  "eval w env (OpBinary Mul l r) =
     (case eval w env l of
        Some (VInt a) \<Rightarrow>
          (case eval w env r of
             Some (VInt b) \<Rightarrow> if inRange w (a * b) then Some (VInt (a * b)) else None
           | _ \<Rightarrow> None)
      | _ \<Rightarrow> None)"
  by (simp add: evalBinaryOp_def intOp_def checkedInt_def split: option.split val.split)

lemma fold_leftAssoc_Add_Add:
  assumes "\<not> isValue x" and "wellFormedEnv w env"
    and "inRange w (a + b)" and "standardAdditiveCondition a (a + b)"
  shows "eval w env (OpBinary Add x (Literal (VInt (a + b)))) =
         eval w env (OpBinary Add (OpBinary Add x (Literal (VInt a))) (Literal (VInt b)))"
proof (cases "eval w env x")
  case None
  then show ?thesis by (simp add: eval_Add_int eval_Sub_int del: eval.simps(3))
next
  case (Some v)
  show ?thesis
  proof (cases v)
    case (VInt xv)
    have xr: "inRange w xv"
      using assms(1,2) Some VInt nonliteral_inRange by blast
    show ?thesis
      using Some VInt xr assms(3,4)
      by (auto simp: eval_Add_int eval_Sub_int inRange_def cond_defs simp del: eval.simps(3) split: if_splits)
  qed (simp_all add: Some eval_Add_int eval_Sub_int del: eval.simps(3))
qed

lemma fold_leftAssoc_Add_Sub:
  assumes "\<not> isValue x" and "wellFormedEnv w env"
    and "inRange w (a - b)" and "standardAdditiveCondition a (a - b)"
  shows "eval w env (OpBinary Add x (Literal (VInt (a - b)))) =
         eval w env (OpBinary Sub (OpBinary Add x (Literal (VInt a))) (Literal (VInt b)))"
proof (cases "eval w env x")
  case None
  then show ?thesis by (simp add: eval_Add_int eval_Sub_int del: eval.simps(3))
next
  case (Some v)
  show ?thesis
  proof (cases v)
    case (VInt xv)
    have xr: "inRange w xv"
      using assms(1,2) Some VInt nonliteral_inRange by blast
    show ?thesis
      using Some VInt xr assms(3,4)
      by (auto simp: eval_Add_int eval_Sub_int inRange_def cond_defs simp del: eval.simps(3) split: if_splits)
  qed (simp_all add: Some eval_Add_int eval_Sub_int del: eval.simps(3))
qed

lemma fold_leftAssoc_Sub_Add:
  assumes "\<not> isValue x" and "wellFormedEnv w env"
    and "inRange w (a - b)" and "standardAdditiveCondition a (a - b)"
  shows "eval w env (OpBinary Sub x (Literal (VInt (a - b)))) =
         eval w env (OpBinary Add (OpBinary Sub x (Literal (VInt a))) (Literal (VInt b)))"
proof (cases "eval w env x")
  case None
  then show ?thesis by (simp add: eval_Add_int eval_Sub_int del: eval.simps(3))
next
  case (Some v)
  show ?thesis
  proof (cases v)
    case (VInt xv)
    have xr: "inRange w xv"
      using assms(1,2) Some VInt nonliteral_inRange by blast
    show ?thesis
      using Some VInt xr assms(3,4)
      by (auto simp: eval_Add_int eval_Sub_int inRange_def cond_defs simp del: eval.simps(3) split: if_splits)
  qed (simp_all add: Some eval_Add_int eval_Sub_int del: eval.simps(3))
qed

lemma fold_leftAssoc_Sub_Sub:
  assumes "\<not> isValue x" and "wellFormedEnv w env"
    and "inRange w (a + b)" and "standardAdditiveCondition a (a + b)"
  shows "eval w env (OpBinary Sub x (Literal (VInt (a + b)))) =
         eval w env (OpBinary Sub (OpBinary Sub x (Literal (VInt a))) (Literal (VInt b)))"
proof (cases "eval w env x")
  case None
  then show ?thesis by (simp add: eval_Add_int eval_Sub_int del: eval.simps(3))
next
  case (Some v)
  show ?thesis
  proof (cases v)
    case (VInt xv)
    have xr: "inRange w xv"
      using assms(1,2) Some VInt nonliteral_inRange by blast
    show ?thesis
      using Some VInt xr assms(3,4)
      by (auto simp: eval_Add_int eval_Sub_int inRange_def cond_defs simp del: eval.simps(3) split: if_splits)
  qed (simp_all add: Some eval_Add_int eval_Sub_int del: eval.simps(3))
qed

lemma fold_leftAssoc_Mul_Mul:
  assumes "\<not> isValue x" and "wellFormedEnv w env"
    and "inRange w (a * b)" and "standardMultiplicativeCondition a (a * b)"
  shows "eval w env (OpBinary Mul x (Literal (VInt (a * b)))) =
         eval w env (OpBinary Mul (OpBinary Mul x (Literal (VInt a))) (Literal (VInt b)))"
proof (cases "eval w env x")
  case None
  then show ?thesis by (simp add: eval_Mul_int del: eval.simps(3))
next
  case (Some v)
  show ?thesis
  proof (cases v)
    case (VInt xv)
    have xr: "inRange w xv"
      using assms(1,2) Some VInt nonliteral_inRange by blast
    show ?thesis
    proof (cases "a = 0")
      case True
      then show ?thesis
        using Some VInt xr by (simp add: eval_Mul_int inRange_def del: eval.simps(3))
    next
      case False
      have "1 \<le> b \<or> b \<le> - 2"
        using assms(4) False mult_cond_factor [of a b] by (simp add: mult.commute)
      then have "inRange w (xv * a * b) \<Longrightarrow> inRange w (xv * a)"
        using mult_core by blast
      then show ?thesis
        using Some VInt by (auto simp: eval_Mul_int mult.assoc mult.commute mult.left_commute simp del: eval.simps(3))
    qed
  qed (simp_all add: Some eval_Mul_int del: eval.simps(3))
qed

lemma fold_leftCommute_Add_Add:
  assumes "\<not> isValue x" and "wellFormedEnv w env"
    and "inRange w (a + b)" and "standardAdditiveCondition a (a + b)"
  shows "eval w env (OpBinary Add (Literal (VInt (a + b))) x) =
         eval w env (OpBinary Add (OpBinary Add (Literal (VInt a)) x) (Literal (VInt b)))"
proof (cases "eval w env x")
  case None
  then show ?thesis by (simp add: eval_Add_int eval_Sub_int del: eval.simps(3))
next
  case (Some v)
  show ?thesis
  proof (cases v)
    case (VInt xv)
    have xr: "inRange w xv"
      using assms(1,2) Some VInt nonliteral_inRange by blast
    show ?thesis
      using Some VInt xr assms(3,4)
      by (auto simp: eval_Add_int eval_Sub_int inRange_def cond_defs simp del: eval.simps(3) split: if_splits)
  qed (simp_all add: Some eval_Add_int eval_Sub_int del: eval.simps(3))
qed

lemma fold_leftCommute_Add_Sub:
  assumes "\<not> isValue x" and "wellFormedEnv w env"
    and "inRange w (a - b)" and "standardAdditiveCondition a (a - b)"
  shows "eval w env (OpBinary Add (Literal (VInt (a - b))) x) =
         eval w env (OpBinary Sub (OpBinary Add (Literal (VInt a)) x) (Literal (VInt b)))"
proof (cases "eval w env x")
  case None
  then show ?thesis by (simp add: eval_Add_int eval_Sub_int del: eval.simps(3))
next
  case (Some v)
  show ?thesis
  proof (cases v)
    case (VInt xv)
    have xr: "inRange w xv"
      using assms(1,2) Some VInt nonliteral_inRange by blast
    show ?thesis
      using Some VInt xr assms(3,4)
      by (auto simp: eval_Add_int eval_Sub_int inRange_def cond_defs simp del: eval.simps(3) split: if_splits)
  qed (simp_all add: Some eval_Add_int eval_Sub_int del: eval.simps(3))
qed

lemma fold_leftCommute_Sub_Add:
  assumes "\<not> isValue x" and "wellFormedEnv w env"
    and "inRange w (a + b)" and "standardAdditiveWithZeroCondition a (a + b)"
  shows "eval w env (OpBinary Sub (Literal (VInt (a + b))) x) =
         eval w env (OpBinary Add (OpBinary Sub (Literal (VInt a)) x) (Literal (VInt b)))"
proof (cases "eval w env x")
  case None
  then show ?thesis by (simp add: eval_Add_int eval_Sub_int del: eval.simps(3))
next
  case (Some v)
  show ?thesis
  proof (cases v)
    case (VInt xv)
    have xr: "inRange w xv"
      using assms(1,2) Some VInt nonliteral_inRange by blast
    show ?thesis
      using Some VInt xr assms(3,4)
      by (auto simp: eval_Add_int eval_Sub_int inRange_def cond_defs simp del: eval.simps(3) split: if_splits)
  qed (simp_all add: Some eval_Add_int eval_Sub_int del: eval.simps(3))
qed

lemma fold_leftCommute_Sub_Sub:
  assumes "\<not> isValue x" and "wellFormedEnv w env"
    and "inRange w (a - b)" and "standardAdditiveWithZeroCondition a (a - b)"
  shows "eval w env (OpBinary Sub (Literal (VInt (a - b))) x) =
         eval w env (OpBinary Sub (OpBinary Sub (Literal (VInt a)) x) (Literal (VInt b)))"
proof (cases "eval w env x")
  case None
  then show ?thesis by (simp add: eval_Add_int eval_Sub_int del: eval.simps(3))
next
  case (Some v)
  show ?thesis
  proof (cases v)
    case (VInt xv)
    have xr: "inRange w xv"
      using assms(1,2) Some VInt nonliteral_inRange by blast
    show ?thesis
      using Some VInt xr assms(3,4)
      by (auto simp: eval_Add_int eval_Sub_int inRange_def cond_defs simp del: eval.simps(3) split: if_splits)
  qed (simp_all add: Some eval_Add_int eval_Sub_int del: eval.simps(3))
qed

lemma fold_leftCommute_Mul_Mul:
  assumes "\<not> isValue x" and "wellFormedEnv w env"
    and "inRange w (a * b)" and "standardMultiplicativeCondition a (a * b)"
  shows "eval w env (OpBinary Mul (Literal (VInt (a * b))) x) =
         eval w env (OpBinary Mul (OpBinary Mul (Literal (VInt a)) x) (Literal (VInt b)))"
proof (cases "eval w env x")
  case None
  then show ?thesis by (simp add: eval_Mul_int del: eval.simps(3))
next
  case (Some v)
  show ?thesis
  proof (cases v)
    case (VInt xv)
    have xr: "inRange w xv"
      using assms(1,2) Some VInt nonliteral_inRange by blast
    show ?thesis
    proof (cases "a = 0")
      case True
      then show ?thesis
        using Some VInt xr by (simp add: eval_Mul_int inRange_def del: eval.simps(3))
    next
      case False
      have "1 \<le> b \<or> b \<le> - 2"
        using assms(4) False mult_cond_factor [of a b] by (simp add: mult.commute)
      then have "inRange w (a * xv * b) \<Longrightarrow> inRange w (a * xv)"
        using mult_core by blast
      then show ?thesis
        using Some VInt by (auto simp: eval_Mul_int mult.assoc mult.commute mult.left_commute simp del: eval.simps(3))
    qed
  qed (simp_all add: Some eval_Mul_int del: eval.simps(3))
qed

lemma fold_rightCommute_Add_Add:
  assumes "\<not> isValue x" and "wellFormedEnv w env"
    and "inRange w (b + a)" and "standardAdditiveCondition a (b + a)"
  shows "eval w env (OpBinary Add x (Literal (VInt (b + a)))) =
         eval w env (OpBinary Add (Literal (VInt b)) (OpBinary Add x (Literal (VInt a))))"
proof (cases "eval w env x")
  case None
  then show ?thesis by (simp add: eval_Add_int eval_Sub_int del: eval.simps(3))
next
  case (Some v)
  show ?thesis
  proof (cases v)
    case (VInt xv)
    have xr: "inRange w xv"
      using assms(1,2) Some VInt nonliteral_inRange by blast
    show ?thesis
      using Some VInt xr assms(3,4)
      by (auto simp: eval_Add_int eval_Sub_int inRange_def cond_defs simp del: eval.simps(3) split: if_splits)
  qed (simp_all add: Some eval_Add_int eval_Sub_int del: eval.simps(3))
qed

lemma fold_rightCommute_Sub_Add:
  assumes "\<not> isValue x" and "wellFormedEnv w env"
    and "inRange w (a - b)" and "standardAdditiveCondition a (a - b)"
  shows "eval w env (OpBinary Sub x (Literal (VInt (a - b)))) =
         eval w env (OpBinary Add (Literal (VInt b)) (OpBinary Sub x (Literal (VInt a))))"
proof (cases "eval w env x")
  case None
  then show ?thesis by (simp add: eval_Add_int eval_Sub_int del: eval.simps(3))
next
  case (Some v)
  show ?thesis
  proof (cases v)
    case (VInt xv)
    have xr: "inRange w xv"
      using assms(1,2) Some VInt nonliteral_inRange by blast
    show ?thesis
      using Some VInt xr assms(3,4)
      by (auto simp: eval_Add_int eval_Sub_int inRange_def cond_defs simp del: eval.simps(3) split: if_splits)
  qed (simp_all add: Some eval_Add_int eval_Sub_int del: eval.simps(3))
qed

lemma fold_rightCommute_Mul_Mul:
  assumes "\<not> isValue x" and "wellFormedEnv w env"
    and "inRange w (b * a)" and "standardMultiplicativeCondition a (b * a)"
  shows "eval w env (OpBinary Mul x (Literal (VInt (b * a)))) =
         eval w env (OpBinary Mul (Literal (VInt b)) (OpBinary Mul x (Literal (VInt a))))"
proof (cases "eval w env x")
  case None
  then show ?thesis by (simp add: eval_Mul_int del: eval.simps(3))
next
  case (Some v)
  show ?thesis
  proof (cases v)
    case (VInt xv)
    have xr: "inRange w xv"
      using assms(1,2) Some VInt nonliteral_inRange by blast
    show ?thesis
    proof (cases "a = 0")
      case True
      then show ?thesis
        using Some VInt xr by (simp add: eval_Mul_int inRange_def del: eval.simps(3))
    next
      case False
      have "1 \<le> b \<or> b \<le> - 2"
        using assms(4) False mult_cond_factor [of a b] by (simp add: mult.commute)
      then have "inRange w (xv * a * b) \<Longrightarrow> inRange w (xv * a)"
        using mult_core by blast
      then show ?thesis
        using Some VInt by (auto simp: eval_Mul_int mult.assoc mult.commute mult.left_commute simp del: eval.simps(3))
    qed
  qed (simp_all add: Some eval_Mul_int del: eval.simps(3))
qed

lemma fold_rightAssoc_Add_Add:
  assumes "\<not> isValue x" and "wellFormedEnv w env"
    and "inRange w (b + a)" and "standardAdditiveCondition a (b + a)"
  shows "eval w env (OpBinary Add (Literal (VInt (b + a))) x) =
         eval w env (OpBinary Add (Literal (VInt b)) (OpBinary Add (Literal (VInt a)) x))"
proof (cases "eval w env x")
  case None
  then show ?thesis by (simp add: eval_Add_int eval_Sub_int del: eval.simps(3))
next
  case (Some v)
  show ?thesis
  proof (cases v)
    case (VInt xv)
    have xr: "inRange w xv"
      using assms(1,2) Some VInt nonliteral_inRange by blast
    show ?thesis
      using Some VInt xr assms(3,4)
      by (auto simp: eval_Add_int eval_Sub_int inRange_def cond_defs simp del: eval.simps(3) split: if_splits)
  qed (simp_all add: Some eval_Add_int eval_Sub_int del: eval.simps(3))
qed

lemma fold_rightAssoc_Sub_Add:
  assumes "\<not> isValue x" and "wellFormedEnv w env"
    and "inRange w (b + a)" and "standardAdditiveWithZeroCondition a (b + a)"
  shows "eval w env (OpBinary Sub (Literal (VInt (b + a))) x) =
         eval w env (OpBinary Add (Literal (VInt b)) (OpBinary Sub (Literal (VInt a)) x))"
proof (cases "eval w env x")
  case None
  then show ?thesis by (simp add: eval_Add_int eval_Sub_int del: eval.simps(3))
next
  case (Some v)
  show ?thesis
  proof (cases v)
    case (VInt xv)
    have xr: "inRange w xv"
      using assms(1,2) Some VInt nonliteral_inRange by blast
    show ?thesis
      using Some VInt xr assms(3,4)
      by (auto simp: eval_Add_int eval_Sub_int inRange_def cond_defs simp del: eval.simps(3) split: if_splits)
  qed (simp_all add: Some eval_Add_int eval_Sub_int del: eval.simps(3))
qed

lemma fold_rightAssoc_Mul_Mul:
  assumes "\<not> isValue x" and "wellFormedEnv w env"
    and "inRange w (b * a)" and "standardMultiplicativeCondition a (b * a)"
  shows "eval w env (OpBinary Mul (Literal (VInt (b * a))) x) =
         eval w env (OpBinary Mul (Literal (VInt b)) (OpBinary Mul (Literal (VInt a)) x))"
proof (cases "eval w env x")
  case None
  then show ?thesis by (simp add: eval_Mul_int del: eval.simps(3))
next
  case (Some v)
  show ?thesis
  proof (cases v)
    case (VInt xv)
    have xr: "inRange w xv"
      using assms(1,2) Some VInt nonliteral_inRange by blast
    show ?thesis
    proof (cases "a = 0")
      case True
      then show ?thesis
        using Some VInt xr by (simp add: eval_Mul_int inRange_def del: eval.simps(3))
    next
      case False
      have "1 \<le> b \<or> b \<le> - 2"
        using assms(4) False mult_cond_factor [of a b] by (simp add: mult.commute)
      then have "inRange w (a * xv * b) \<Longrightarrow> inRange w (a * xv)"
        using mult_core by blast
      then show ?thesis
        using Some VInt by (auto simp: eval_Mul_int mult.assoc mult.commute mult.left_commute simp del: eval.simps(3))
    qed
  qed (simp_all add: Some eval_Mul_int del: eval.simps(3))
qed

lemma leftAssoc_sound:
  assumes get: "getLeftAssociativityTransform w op1 op0 = Some t"
    and tr: "transform t c1 c2 = Inr d"
    and sc: "safetyCondition t c1 (val' d) = Inr True"
    and nv: "\<not> isValue x" and wf: "wellFormedEnv w env"
  shows "eval w env (OpBinary (op1' d) x (Literal (val' d))) =
         eval w env (OpBinary op0 (OpBinary op1 x (Literal c1)) (Literal c2))"
  using getLeftAssociativity_cases [OF get]
proof (elim disjE conjE)
  assume k1: "op1 = Add" and k2: "op0 = Add"
    and t: "t = tableEntry (\<lambda>c1 c2. evalBinaryOp w Add c1 c2) Add standardAdditiveCondition"
  obtain a r where c1: "c1 = VInt a" and f: "evalBinaryOp w Add c1 c2 = Inr (VInt r)"
    and d: "d = \<lparr> op1' = Add, val' = VInt r \<rparr>" and c: "standardAdditiveCondition a r"
    using entry_facts tr sc unfolding t by blast
  obtain b where c2: "c2 = VInt b" and r: "r = a + b" and rr: "inRange w r"
    using evalBinaryOp_Add_Inr [OF f] c1 by auto
  show ?thesis
    using fold_leftAssoc_Add_Add [OF nv wf, where a = a and b = b] rr c unfolding k1 k2 c1 c2 d r by simp
next
  assume k1: "op1 = Add" and k2: "op0 = Sub"
    and t: "t = tableEntry (\<lambda>c1 c2. evalBinaryOp w Sub c1 c2) Add standardAdditiveCondition"
  obtain a r where c1: "c1 = VInt a" and f: "evalBinaryOp w Sub c1 c2 = Inr (VInt r)"
    and d: "d = \<lparr> op1' = Add, val' = VInt r \<rparr>" and c: "standardAdditiveCondition a r"
    using entry_facts tr sc unfolding t by blast
  obtain b where c2: "c2 = VInt b" and r: "r = a - b" and rr: "inRange w r"
    using evalBinaryOp_Sub_Inr [OF f] c1 by auto
  show ?thesis
    using fold_leftAssoc_Add_Sub [OF nv wf, where a = a and b = b] rr c unfolding k1 k2 c1 c2 d r by simp
next
  assume k1: "op1 = Sub" and k2: "op0 = Add"
    and t: "t = tableEntry (\<lambda>c1 c2. evalBinaryOp w Sub c1 c2) Sub standardAdditiveCondition"
  obtain a r where c1: "c1 = VInt a" and f: "evalBinaryOp w Sub c1 c2 = Inr (VInt r)"
    and d: "d = \<lparr> op1' = Sub, val' = VInt r \<rparr>" and c: "standardAdditiveCondition a r"
    using entry_facts tr sc unfolding t by blast
  obtain b where c2: "c2 = VInt b" and r: "r = a - b" and rr: "inRange w r"
    using evalBinaryOp_Sub_Inr [OF f] c1 by auto
  show ?thesis
    using fold_leftAssoc_Sub_Add [OF nv wf, where a = a and b = b] rr c unfolding k1 k2 c1 c2 d r by simp
next
  assume k1: "op1 = Sub" and k2: "op0 = Sub"
    and t: "t = tableEntry (\<lambda>c1 c2. evalBinaryOp w Add c1 c2) Sub standardAdditiveCondition"
  obtain a r where c1: "c1 = VInt a" and f: "evalBinaryOp w Add c1 c2 = Inr (VInt r)"
    and d: "d = \<lparr> op1' = Sub, val' = VInt r \<rparr>" and c: "standardAdditiveCondition a r"
    using entry_facts tr sc unfolding t by blast
  obtain b where c2: "c2 = VInt b" and r: "r = a + b" and rr: "inRange w r"
    using evalBinaryOp_Add_Inr [OF f] c1 by auto
  show ?thesis
    using fold_leftAssoc_Sub_Sub [OF nv wf, where a = a and b = b] rr c unfolding k1 k2 c1 c2 d r by simp
next
  assume k1: "op1 = Mul" and k2: "op0 = Mul"
    and t: "t = tableEntry (\<lambda>c1 c2. evalBinaryOp w Mul c1 c2) Mul standardMultiplicativeCondition"
  obtain a r where c1: "c1 = VInt a" and f: "evalBinaryOp w Mul c1 c2 = Inr (VInt r)"
    and d: "d = \<lparr> op1' = Mul, val' = VInt r \<rparr>" and c: "standardMultiplicativeCondition a r"
    using entry_facts tr sc unfolding t by blast
  obtain b where c2: "c2 = VInt b" and r: "r = a * b" and rr: "inRange w r"
    using evalBinaryOp_Mul_Inr [OF f] c1 by auto
  show ?thesis
    using fold_leftAssoc_Mul_Mul [OF nv wf, where a = a and b = b] rr c unfolding k1 k2 c1 c2 d r by simp
qed

lemma leftCommute_sound:
  assumes get: "getLeftCommutativityTransform w op1 op0 = Some t"
    and tr: "transform t c1 c2 = Inr d"
    and sc: "safetyCondition t c1 (val' d) = Inr True"
    and nv: "\<not> isValue x" and wf: "wellFormedEnv w env"
  shows "eval w env (OpBinary (op1' d) (Literal (val' d)) x) =
         eval w env (OpBinary op0 (OpBinary op1 (Literal c1) x) (Literal c2))"
  using getLeftCommutativity_cases [OF get]
proof (elim disjE conjE)
  assume k1: "op1 = Add" and k2: "op0 = Add"
    and t: "t = tableEntry (\<lambda>c1 c2. evalBinaryOp w Add c1 c2) Add standardAdditiveCondition"
  obtain a r where c1: "c1 = VInt a" and f: "evalBinaryOp w Add c1 c2 = Inr (VInt r)"
    and d: "d = \<lparr> op1' = Add, val' = VInt r \<rparr>" and c: "standardAdditiveCondition a r"
    using entry_facts tr sc unfolding t by blast
  obtain b where c2: "c2 = VInt b" and r: "r = a + b" and rr: "inRange w r"
    using evalBinaryOp_Add_Inr [OF f] c1 by auto
  show ?thesis
    using fold_leftCommute_Add_Add [OF nv wf, where a = a and b = b] rr c unfolding k1 k2 c1 c2 d r by simp
next
  assume k1: "op1 = Add" and k2: "op0 = Sub"
    and t: "t = tableEntry (\<lambda>c1 c2. evalBinaryOp w Sub c1 c2) Add standardAdditiveCondition"
  obtain a r where c1: "c1 = VInt a" and f: "evalBinaryOp w Sub c1 c2 = Inr (VInt r)"
    and d: "d = \<lparr> op1' = Add, val' = VInt r \<rparr>" and c: "standardAdditiveCondition a r"
    using entry_facts tr sc unfolding t by blast
  obtain b where c2: "c2 = VInt b" and r: "r = a - b" and rr: "inRange w r"
    using evalBinaryOp_Sub_Inr [OF f] c1 by auto
  show ?thesis
    using fold_leftCommute_Add_Sub [OF nv wf, where a = a and b = b] rr c unfolding k1 k2 c1 c2 d r by simp
next
  assume k1: "op1 = Sub" and k2: "op0 = Add"
    and t: "t = tableEntry (\<lambda>c1 c2. evalBinaryOp w Add c1 c2) Sub standardAdditiveWithZeroCondition"
  obtain a r where c1: "c1 = VInt a" and f: "evalBinaryOp w Add c1 c2 = Inr (VInt r)"
    and d: "d = \<lparr> op1' = Sub, val' = VInt r \<rparr>" and c: "standardAdditiveWithZeroCondition a r"
    using entry_facts tr sc unfolding t by blast
  obtain b where c2: "c2 = VInt b" and r: "r = a + b" and rr: "inRange w r"
    using evalBinaryOp_Add_Inr [OF f] c1 by auto
  show ?thesis
    using fold_leftCommute_Sub_Add [OF nv wf, where a = a and b = b] rr c unfolding k1 k2 c1 c2 d r by simp
next
  assume k1: "op1 = Sub" and k2: "op0 = Sub"
    and t: "t = tableEntry (\<lambda>c1 c2. evalBinaryOp w Sub c1 c2) Sub standardAdditiveWithZeroCondition"
  obtain a r where c1: "c1 = VInt a" and f: "evalBinaryOp w Sub c1 c2 = Inr (VInt r)"
    and d: "d = \<lparr> op1' = Sub, val' = VInt r \<rparr>" and c: "standardAdditiveWithZeroCondition a r"
    using entry_facts tr sc unfolding t by blast
  obtain b where c2: "c2 = VInt b" and r: "r = a - b" and rr: "inRange w r"
    using evalBinaryOp_Sub_Inr [OF f] c1 by auto
  show ?thesis
    using fold_leftCommute_Sub_Sub [OF nv wf, where a = a and b = b] rr c unfolding k1 k2 c1 c2 d r by simp
next
  assume k1: "op1 = Mul" and k2: "op0 = Mul"
    and t: "t = tableEntry (\<lambda>c1 c2. evalBinaryOp w Mul c1 c2) Mul standardMultiplicativeCondition"
  obtain a r where c1: "c1 = VInt a" and f: "evalBinaryOp w Mul c1 c2 = Inr (VInt r)"
    and d: "d = \<lparr> op1' = Mul, val' = VInt r \<rparr>" and c: "standardMultiplicativeCondition a r"
    using entry_facts tr sc unfolding t by blast
  obtain b where c2: "c2 = VInt b" and r: "r = a * b" and rr: "inRange w r"
    using evalBinaryOp_Mul_Inr [OF f] c1 by auto
  show ?thesis
    using fold_leftCommute_Mul_Mul [OF nv wf, where a = a and b = b] rr c unfolding k1 k2 c1 c2 d r by simp
qed

lemma rightCommute_sound:
  assumes get: "getRightCommutativityTransform w op0 op1 = Some t"
    and tr: "transform t c1 c2 = Inr d"
    and sc: "safetyCondition t c1 (val' d) = Inr True"
    and nv: "\<not> isValue x" and wf: "wellFormedEnv w env"
  shows "eval w env (OpBinary (op1' d) x (Literal (val' d))) =
         eval w env (OpBinary op0 (Literal c2) (OpBinary op1 x (Literal c1)))"
  using getRightCommutativity_cases [OF get]
proof (elim disjE conjE)
  assume k1: "op0 = Add" and k2: "op1 = Add"
    and t: "t = tableEntry (\<lambda>c1 c2. evalBinaryOp w Add c2 c1) Add standardAdditiveCondition"
  obtain a r where c1: "c1 = VInt a" and f: "evalBinaryOp w Add c2 c1 = Inr (VInt r)"
    and d: "d = \<lparr> op1' = Add, val' = VInt r \<rparr>" and c: "standardAdditiveCondition a r"
    using entry_facts tr sc unfolding t by blast
  obtain b where c2: "c2 = VInt b" and r: "r = b + a" and rr: "inRange w r"
    using evalBinaryOp_Add_Inr [OF f] c1 by auto
  show ?thesis
    using fold_rightCommute_Add_Add [OF nv wf, where a = a and b = b] rr c unfolding k1 k2 c1 c2 d r by simp
next
  assume k1: "op0 = Add" and k2: "op1 = Sub"
    and t: "t = tableEntry (\<lambda>c1 c2. evalBinaryOp w Sub c1 c2) Sub standardAdditiveCondition"
  obtain a r where c1: "c1 = VInt a" and f: "evalBinaryOp w Sub c1 c2 = Inr (VInt r)"
    and d: "d = \<lparr> op1' = Sub, val' = VInt r \<rparr>" and c: "standardAdditiveCondition a r"
    using entry_facts tr sc unfolding t by blast
  obtain b where c2: "c2 = VInt b" and r: "r = a - b" and rr: "inRange w r"
    using evalBinaryOp_Sub_Inr [OF f] c1 by auto
  show ?thesis
    using fold_rightCommute_Sub_Add [OF nv wf, where a = a and b = b] rr c unfolding k1 k2 c1 c2 d r by simp
next
  assume k1: "op0 = Mul" and k2: "op1 = Mul"
    and t: "t = tableEntry (\<lambda>c1 c2. evalBinaryOp w Mul c2 c1) Mul standardMultiplicativeCondition"
  obtain a r where c1: "c1 = VInt a" and f: "evalBinaryOp w Mul c2 c1 = Inr (VInt r)"
    and d: "d = \<lparr> op1' = Mul, val' = VInt r \<rparr>" and c: "standardMultiplicativeCondition a r"
    using entry_facts tr sc unfolding t by blast
  obtain b where c2: "c2 = VInt b" and r: "r = b * a" and rr: "inRange w r"
    using evalBinaryOp_Mul_Inr [OF f] c1 by auto
  show ?thesis
    using fold_rightCommute_Mul_Mul [OF nv wf, where a = a and b = b] rr c unfolding k1 k2 c1 c2 d r by simp
qed

lemma rightAssoc_sound:
  assumes get: "getRightAssociativityTransform w op0 op1 = Some t"
    and tr: "transform t c1 c2 = Inr d"
    and sc: "safetyCondition t c1 (val' d) = Inr True"
    and nv: "\<not> isValue x" and wf: "wellFormedEnv w env"
  shows "eval w env (OpBinary (op1' d) (Literal (val' d)) x) =
         eval w env (OpBinary op0 (Literal c2) (OpBinary op1 (Literal c1) x))"
  using getRightAssociativity_cases [OF get]
proof (elim disjE conjE)
  assume k1: "op0 = Add" and k2: "op1 = Add"
    and t: "t = tableEntry (\<lambda>c1 c2. evalBinaryOp w Add c2 c1) Add standardAdditiveCondition"
  obtain a r where c1: "c1 = VInt a" and f: "evalBinaryOp w Add c2 c1 = Inr (VInt r)"
    and d: "d = \<lparr> op1' = Add, val' = VInt r \<rparr>" and c: "standardAdditiveCondition a r"
    using entry_facts tr sc unfolding t by blast
  obtain b where c2: "c2 = VInt b" and r: "r = b + a" and rr: "inRange w r"
    using evalBinaryOp_Add_Inr [OF f] c1 by auto
  show ?thesis
    using fold_rightAssoc_Add_Add [OF nv wf, where a = a and b = b] rr c unfolding k1 k2 c1 c2 d r by simp
next
  assume k1: "op0 = Add" and k2: "op1 = Sub"
    and t: "t = tableEntry (\<lambda>c1 c2. evalBinaryOp w Add c2 c1) Sub standardAdditiveWithZeroCondition"
  obtain a r where c1: "c1 = VInt a" and f: "evalBinaryOp w Add c2 c1 = Inr (VInt r)"
    and d: "d = \<lparr> op1' = Sub, val' = VInt r \<rparr>" and c: "standardAdditiveWithZeroCondition a r"
    using entry_facts tr sc unfolding t by blast
  obtain b where c2: "c2 = VInt b" and r: "r = b + a" and rr: "inRange w r"
    using evalBinaryOp_Add_Inr [OF f] c1 by auto
  show ?thesis
    using fold_rightAssoc_Sub_Add [OF nv wf, where a = a and b = b] rr c unfolding k1 k2 c1 c2 d r by simp
next
  assume k1: "op0 = Mul" and k2: "op1 = Mul"
    and t: "t = tableEntry (\<lambda>c1 c2. evalBinaryOp w Mul c2 c1) Mul standardMultiplicativeCondition"
  obtain a r where c1: "c1 = VInt a" and f: "evalBinaryOp w Mul c2 c1 = Inr (VInt r)"
    and d: "d = \<lparr> op1' = Mul, val' = VInt r \<rparr>" and c: "standardMultiplicativeCondition a r"
    using entry_facts tr sc unfolding t by blast
  obtain b where c2: "c2 = VInt b" and r: "r = b * a" and rr: "inRange w r"
    using evalBinaryOp_Mul_Inr [OF f] c1 by auto
  show ?thesis
    using fold_rightAssoc_Mul_Mul [OF nv wf, where a = a and b = b] rr c unfolding k1 k2 c1 c2 d r by simp
qed

lemma plan_leftAssoc:
  assumes nv: "\<not> isValue x1"
  shows "\<exists>r. (\<forall>(optimizer :: 's ExpressionTransformer) s.
            applyRule3 w optimizer (OpBinary op0 (OpBinary op1 x1 (Literal c1)) (Literal c2)) s =
              (case r of None \<Rightarrow> (OpBinary op0 (OpBinary op1 x1 (Literal c1)) (Literal c2), s)
               | Some t \<Rightarrow> optimizer t s)) \<and>
         (\<forall>t. r = Some t \<longrightarrow>
            nodeCount t < nodeCount (OpBinary op0 (OpBinary op1 x1 (Literal c1)) (Literal c2)) \<and>
            (\<forall>env. wellFormedEnv w env \<longrightarrow>
               eval w env t = eval w env (OpBinary op0 (OpBinary op1 x1 (Literal c1)) (Literal c2))))"
proof (cases "getLeftAssociativityTransform w op1 op0")
  case None
  then show ?thesis
    by (intro exI [of _ None]) (simp add: applyRule3_leftAssoc [OF nv])
next
  case (Some t)
  note get = this
  show ?thesis
  proof (cases "transform t c1 c2")
    case (Inl e)
    then show ?thesis
      by (intro exI [of _ None]) (simp add: applyRule3_leftAssoc [OF nv] get)
  next
    case (Inr d)
    note tr = this
    show ?thesis
    proof (cases "safetyCondition t c1 (val' d)")
      case (Inl e)
      then show ?thesis
        by (intro exI [of _ None]) (simp add: applyRule3_leftAssoc [OF nv] get tr)
    next
      case (Inr safe)
      show ?thesis
      proof (cases safe)
        case False
        then show ?thesis
          by (intro exI [of _ None]) (simp add: applyRule3_leftAssoc [OF nv] get tr Inr)
      next
        case True
        then have sc: "safetyCondition t c1 (val' d) = Inr True" using Inr by simp
        have "\<And>env. wellFormedEnv w env \<Longrightarrow>
                eval w env (OpBinary (op1' d) x1 (Literal (val' d))) =
                eval w env (OpBinary op0 (OpBinary op1 x1 (Literal c1)) (Literal c2))"
          using leftAssoc_sound [OF get tr sc nv] by blast
        then show ?thesis
          by (intro exI [of _ "Some (OpBinary (op1' d) x1 (Literal (val' d)))"])
             (simp add: applyRule3_leftAssoc [OF nv] get tr sc del: eval.simps)
      qed
    qed
  qed
qed

lemma plan_leftCommute:
  assumes nv: "\<not> isValue x1"
  shows "\<exists>r. (\<forall>(optimizer :: 's ExpressionTransformer) s.
            applyRule3 w optimizer (OpBinary op0 (OpBinary op1 (Literal c1) x1) (Literal c2)) s =
              (case r of None \<Rightarrow> (OpBinary op0 (OpBinary op1 (Literal c1) x1) (Literal c2), s)
               | Some t \<Rightarrow> optimizer t s)) \<and>
         (\<forall>t. r = Some t \<longrightarrow>
            nodeCount t < nodeCount (OpBinary op0 (OpBinary op1 (Literal c1) x1) (Literal c2)) \<and>
            (\<forall>env. wellFormedEnv w env \<longrightarrow>
               eval w env t = eval w env (OpBinary op0 (OpBinary op1 (Literal c1) x1) (Literal c2))))"
proof (cases "getLeftCommutativityTransform w op1 op0")
  case None
  then show ?thesis
    by (intro exI [of _ None]) (simp add: applyRule3_leftCommute [OF nv])
next
  case (Some t)
  note get = this
  show ?thesis
  proof (cases "transform t c1 c2")
    case (Inl e)
    then show ?thesis
      by (intro exI [of _ None]) (simp add: applyRule3_leftCommute [OF nv] get)
  next
    case (Inr d)
    note tr = this
    show ?thesis
    proof (cases "safetyCondition t c1 (val' d)")
      case (Inl e)
      then show ?thesis
        by (intro exI [of _ None]) (simp add: applyRule3_leftCommute [OF nv] get tr)
    next
      case (Inr safe)
      show ?thesis
      proof (cases safe)
        case False
        then show ?thesis
          by (intro exI [of _ None]) (simp add: applyRule3_leftCommute [OF nv] get tr Inr)
      next
        case True
        then have sc: "safetyCondition t c1 (val' d) = Inr True" using Inr by simp
        have "\<And>env. wellFormedEnv w env \<Longrightarrow>
                eval w env (OpBinary (op1' d) (Literal (val' d)) x1) =
                eval w env (OpBinary op0 (OpBinary op1 (Literal c1) x1) (Literal c2))"
          using leftCommute_sound [OF get tr sc nv] by blast
        then show ?thesis
          by (intro exI [of _ "Some (OpBinary (op1' d) (Literal (val' d)) x1)"])
             (simp add: applyRule3_leftCommute [OF nv] get tr sc del: eval.simps)
      qed
    qed
  qed
qed

lemma plan_rightCommute:
  assumes nv: "\<not> isValue x1"
  shows "\<exists>r. (\<forall>(optimizer :: 's ExpressionTransformer) s.
            applyRule3 w optimizer (OpBinary op0 (Literal c2) (OpBinary op1 x1 (Literal c1))) s =
              (case r of None \<Rightarrow> (OpBinary op0 (Literal c2) (OpBinary op1 x1 (Literal c1)), s)
               | Some t \<Rightarrow> optimizer t s)) \<and>
         (\<forall>t. r = Some t \<longrightarrow>
            nodeCount t < nodeCount (OpBinary op0 (Literal c2) (OpBinary op1 x1 (Literal c1))) \<and>
            (\<forall>env. wellFormedEnv w env \<longrightarrow>
               eval w env t = eval w env (OpBinary op0 (Literal c2) (OpBinary op1 x1 (Literal c1)))))"
proof (cases "getRightCommutativityTransform w op0 op1")
  case None
  then show ?thesis
    by (intro exI [of _ None]) (simp add: applyRule3_rightCommute [OF nv])
next
  case (Some t)
  note get = this
  show ?thesis
  proof (cases "transform t c1 c2")
    case (Inl e)
    then show ?thesis
      by (intro exI [of _ None]) (simp add: applyRule3_rightCommute [OF nv] get)
  next
    case (Inr d)
    note tr = this
    show ?thesis
    proof (cases "safetyCondition t c1 (val' d)")
      case (Inl e)
      then show ?thesis
        by (intro exI [of _ None]) (simp add: applyRule3_rightCommute [OF nv] get tr)
    next
      case (Inr safe)
      show ?thesis
      proof (cases safe)
        case False
        then show ?thesis
          by (intro exI [of _ None]) (simp add: applyRule3_rightCommute [OF nv] get tr Inr)
      next
        case True
        then have sc: "safetyCondition t c1 (val' d) = Inr True" using Inr by simp
        have "\<And>env. wellFormedEnv w env \<Longrightarrow>
                eval w env (OpBinary (op1' d) x1 (Literal (val' d))) =
                eval w env (OpBinary op0 (Literal c2) (OpBinary op1 x1 (Literal c1)))"
          using rightCommute_sound [OF get tr sc nv] by blast
        then show ?thesis
          by (intro exI [of _ "Some (OpBinary (op1' d) x1 (Literal (val' d)))"])
             (simp add: applyRule3_rightCommute [OF nv] get tr sc del: eval.simps)
      qed
    qed
  qed
qed

lemma plan_rightAssoc:
  assumes nv: "\<not> isValue x1"
  shows "\<exists>r. (\<forall>(optimizer :: 's ExpressionTransformer) s.
            applyRule3 w optimizer (OpBinary op0 (Literal c2) (OpBinary op1 (Literal c1) x1)) s =
              (case r of None \<Rightarrow> (OpBinary op0 (Literal c2) (OpBinary op1 (Literal c1) x1), s)
               | Some t \<Rightarrow> optimizer t s)) \<and>
         (\<forall>t. r = Some t \<longrightarrow>
            nodeCount t < nodeCount (OpBinary op0 (Literal c2) (OpBinary op1 (Literal c1) x1)) \<and>
            (\<forall>env. wellFormedEnv w env \<longrightarrow>
               eval w env t = eval w env (OpBinary op0 (Literal c2) (OpBinary op1 (Literal c1) x1))))"
proof (cases "getRightAssociativityTransform w op0 op1")
  case None
  then show ?thesis
    by (intro exI [of _ None]) (simp add: applyRule3_rightAssoc [OF nv])
next
  case (Some t)
  note get = this
  show ?thesis
  proof (cases "transform t c1 c2")
    case (Inl e)
    then show ?thesis
      by (intro exI [of _ None]) (simp add: applyRule3_rightAssoc [OF nv] get)
  next
    case (Inr d)
    note tr = this
    show ?thesis
    proof (cases "safetyCondition t c1 (val' d)")
      case (Inl e)
      then show ?thesis
        by (intro exI [of _ None]) (simp add: applyRule3_rightAssoc [OF nv] get tr)
    next
      case (Inr safe)
      show ?thesis
      proof (cases safe)
        case False
        then show ?thesis
          by (intro exI [of _ None]) (simp add: applyRule3_rightAssoc [OF nv] get tr Inr)
      next
        case True
        then have sc: "safetyCondition t c1 (val' d) = Inr True" using Inr by simp
        have "\<And>env. wellFormedEnv w env \<Longrightarrow>
                eval w env (OpBinary (op1' d) (Literal (val' d)) x1) =
                eval w env (OpBinary op0 (Literal c2) (OpBinary op1 (Literal c1) x1))"
          using rightAssoc_sound [OF get tr sc nv] by blast
        then show ?thesis
          by (intro exI [of _ "Some (OpBinary (op1' d) (Literal (val' d)) x1)"])
             (simp add: applyRule3_rightAssoc [OF nv] get tr sc del: eval.simps)
      qed
    qed
  qed
qed

lemma applyRule3_plan:
  "\<exists>r. (\<forall>(optimizer :: 's ExpressionTransformer) s.
          applyRule3 w optimizer ast s =
            (case r of None \<Rightarrow> (ast, s) | Some t \<Rightarrow> optimizer t s)) \<and>
       (\<forall>t. r = Some t \<longrightarrow>
          nodeCount t < nodeCount ast \<and>
          (\<forall>env. wellFormedEnv w env \<longrightarrow> eval w env t = eval w env ast))"
proof (cases ast)
  case (OpBinary op0 l r)
  consider
      (la) "checkIsBinaryOp_NonValue_Value l \<and> isValue r"
    | (lc) "checkIsBinaryOp_Value_NonValue l \<and> isValue r"
    | (rc) "isValue l \<and> checkIsBinaryOp_NonValue_Value r"
    | (ra) "isValue l \<and> checkIsBinaryOp_Value_NonValue r"
    | (none) "\<not> (checkIsBinaryOp_NonValue_Value l \<and> isValue r)"
        "\<not> (checkIsBinaryOp_Value_NonValue l \<and> isValue r)"
        "\<not> (isValue l \<and> checkIsBinaryOp_NonValue_Value r)"
        "\<not> (isValue l \<and> checkIsBinaryOp_Value_NonValue r)"
    by blast
  then show ?thesis
  proof cases
    case la
    then obtain op1 x1 c1 c2 where "l = OpBinary op1 x1 (Literal c1)" "\<not> isValue x1"
      "r = Literal c2"
      using NonValue_Value_shape isValue_shape by blast
    then show ?thesis using plan_leftAssoc OpBinary by blast
  next
    case lc
    then obtain op1 x1 c1 c2 where "l = OpBinary op1 (Literal c1) x1" "\<not> isValue x1"
      "r = Literal c2"
      using Value_NonValue_shape isValue_shape by blast
    then show ?thesis using plan_leftCommute OpBinary by blast
  next
    case rc
    then obtain op1 x1 c1 c2 where "r = OpBinary op1 x1 (Literal c1)" "\<not> isValue x1"
      "l = Literal c2"
      using NonValue_Value_shape isValue_shape by blast
    then show ?thesis using plan_rightCommute OpBinary by blast
  next
    case ra
    then obtain op1 x1 c1 c2 where "r = OpBinary op1 (Literal c1) x1" "\<not> isValue x1"
      "l = Literal c2"
      using Value_NonValue_shape isValue_shape by blast
    then show ?thesis using plan_rightAssoc OpBinary by blast
  next
    case none
    then have "\<And>(optimizer :: 's ExpressionTransformer) s.
        applyRule3 w optimizer ast s = (ast, s)"
      using applyRule3_noShape [of ast] OpBinary by simp
    then show ?thesis by (intro exI [of _ None]) simp
  qed
next
  case (Literal v)
  then show ?thesis
    by (intro exI [of _ None]) (simp add: applyRule3_notBinary checkIsBinaryOpNode_def)
next
  case (Ident n)
  then show ?thesis
    by (intro exI [of _ None]) (simp add: applyRule3_notBinary checkIsBinaryOpNode_def)
qed


text \<open>
  Claim C1. Soundness of \<^verbatim>\<open>AssociativeRule3\<close>. Take any integer width, any expression
  tree \<open>T\<close> (one of the four shapes or not), any environment that binds the variables to
  values of the language, and any callback of the optimizer that preserves the
  evaluation of the trees it is given. Then the tree that \<open>applyRule\<close> returns evaluates
  as \<open>T\<close> does under checked-overflow integers: to the same value, and to a trap (\<open>None\<close>)
  exactly when \<open>T\<close> traps. A result identical to \<open>T\<close> is a special case.
\<close>

theorem rule3_sound:
  assumes wf: "wellFormedEnv w env"
    and pres: "\<And>e s' env'. wellFormedEnv w env' \<Longrightarrow>
                 eval w env' (fst (optimizer e s')) = eval w env' e"
  shows "eval w env (fst (applyRule3 w (optimizer :: 's ExpressionTransformer) T s)) =
         eval w env T"
proof -
  obtain r where run: "\<And>(optimizer :: 's ExpressionTransformer) s.
        applyRule3 w optimizer T s = (case r of None \<Rightarrow> (T, s) | Some t \<Rightarrow> optimizer t s)"
    and ok: "\<And>t. r = Some t \<Longrightarrow> eval w env t = eval w env T"
    using applyRule3_plan [of w T, where 's = 's] wf by blast
  show ?thesis
  proof (cases r)
    case None
    then show ?thesis by (simp add: run)
  next
    case (Some t)
    then have "eval w env (fst (applyRule3 w optimizer T s)) = eval w env t"
      using pres [OF wf] by (simp add: run)
    then show ?thesis using ok [OF Some] by simp
  qed
qed

theorem rule3_sound_witness:
  "wellFormedEnv 256 [(''x'', VInt 7)] \<and>
   fst (applyRule3 256 (recording (\<lambda>e. e))
     (OpBinary Add (OpBinary Add (Ident ''x'') (Literal (VInt 5))) (Literal (VInt 3))) []) =
     OpBinary Add (Ident ''x'') (Literal (VInt 8)) \<and>
   eval 256 [(''x'', VInt 7)] (OpBinary Add (Ident ''x'') (Literal (VInt 8))) =
   eval 256 [(''x'', VInt 7)]
     (OpBinary Add (OpBinary Add (Ident ''x'') (Literal (VInt 5))) (Literal (VInt 3)))"
proof -
  have a: "wellFormedEnv 256 [(''x'', VInt 7)]"
    by (simp add: wellFormedEnv_def representable_def inRange_def)
  have b: "\<And>e s' env'. wellFormedEnv 256 env' \<Longrightarrow>
      eval 256 env' (fst (recording (\<lambda>e. e) e s')) = eval 256 env' e"
    by (simp add: recording_def)
  have c: "fst (applyRule3 256 (recording (\<lambda>e. e))
     (OpBinary Add (OpBinary Add (Ident ''x'') (Literal (VInt 5))) (Literal (VInt 3))) []) =
     OpBinary Add (Ident ''x'') (Literal (VInt 8))"
    by (simp add: applyRule3_leftAssoc isValue_def table_defs eval_defs inRange_def
          cond_defs recording_def)
  show ?thesis
    using a c
      rule3_sound [where w = 256 and env = "[(''x'', VInt 7)]" and
        optimizer = "recording (\<lambda>e. e)" and s = "[]" and
        T = "OpBinary Add (OpBinary Add (Ident ''x'') (Literal (VInt 5))) (Literal (VInt 3))",
        OF a b]
    by (simp del: eval.simps)
qed

subsection \<open>The recursion between the rules and the optimizer\<close>

lemma applyRule1_unchanged: "applyRule1 w optimizer ast s = (ast, s)"
  unfolding applyRule1_def Let_def by (simp only: rule1_guards if_False if_cancel)

lemma applyRule2_unchanged: "applyRule2 optimizer ast s = (ast, s)"
  unfolding applyRule2_def Let_def by (simp only: rule2_guards if_False if_cancel)

lemma nodeCount_pos: "0 < nodeCount e"
  by (cases e) simp_all

lemma applyRulesFuel_Suc:
  "applyRulesFuel w (Suc n) ast =
     (case applyRule3 w
        (\<lambda>t ok. case applyRulesFuel w n t of Some r \<Rightarrow> (r, ok) | None \<Rightarrow> (t, False))
        ast True of
      (ast3, ok3) \<Rightarrow> if ok3 then Some ast3 else None)"
  by (simp add: applyRule1_unchanged applyRule2_unchanged)

lemma applyRulesFuel_returns:
  "nodeCount ast \<le> n \<Longrightarrow>
     \<exists>r. applyRulesFuel w n ast = Some r \<and> nodeCount r \<le> nodeCount ast"
proof (induction n arbitrary: ast)
  case 0
  then show ?case using nodeCount_pos [of ast] by simp
next
  case (Suc n)
  obtain p where run: "\<And>(optimizer :: bool ExpressionTransformer) s.
        applyRule3 w optimizer ast s = (case p of None \<Rightarrow> (ast, s) | Some t \<Rightarrow> optimizer t s)"
    and small: "\<And>t. p = Some t \<Longrightarrow> nodeCount t < nodeCount ast"
    using applyRule3_plan [of w ast, where 's = bool] by blast
  show ?case
  proof (cases p)
    case None
    then show ?thesis by (simp add: applyRulesFuel_Suc run del: applyRulesFuel.simps)
  next
    case (Some t)
    have less: "nodeCount t < nodeCount ast" using small [OF Some] .
    then have "nodeCount t \<le> n" using Suc.prems by simp
    then obtain r where r: "applyRulesFuel w n t = Some r" and "nodeCount r \<le> nodeCount t"
      using Suc.IH by blast
    then show ?thesis
      using Some less by (simp add: applyRulesFuel_Suc run del: applyRulesFuel.simps)
  qed
qed

lemma call_sites_smaller:
  "nodeCount (makeBinaryExpression op1 x1 x2) <
     nodeCount (OpBinary op0 (OpBinary op1 x1 c1) (OpBinary op2 x2 c2))"
  "nodeCount (makeBinaryExpression op1 x1 (makeValueExpression v)) <
     nodeCount (OpBinary op0 (OpBinary op1 x1 c1) (OpBinary op2 c2 x2))"
  "nodeCount (makeBinaryExpression op2 x2 (makeValueExpression v)) <
     nodeCount (OpBinary op0 (OpBinary op1 c1 x1) (OpBinary op2 x2 c2))"
  "nodeCount (makeBinaryExpression op2 x1 x2) <
     nodeCount (OpBinary op0 (OpBinary op1 c1 x1) (OpBinary op2 c2 x2))"
  "nodeCount (makeBinaryExpression op1 x1 x2) < nodeCount (OpBinary op0 (OpBinary op1 x1 c1) x2)"
  "nodeCount (makeBinaryExpression op0 x1 x2) < nodeCount (OpBinary op0 (OpBinary op1 c1 x1) x2)"
  "nodeCount (makeBinaryExpression op0 x2 x1) < nodeCount (OpBinary op0 x2 (OpBinary op1 x1 c1))"
  "nodeCount (makeBinaryExpression op1 x2 x1) < nodeCount (OpBinary op0 x2 (OpBinary op1 c1 x1))"
  using nodeCount_pos [of c1] nodeCount_pos [of c2] nodeCount_pos [of x2]
  by (simp_all add: makeBinaryExpression_def makeValueExpression_def)

lemma fuel_example:
  "applyRulesFuel 256 5
     (OpBinary Add (OpBinary Add (Ident ''x'') (Literal (VInt 5))) (Literal (VInt 3))) =
   Some (OpBinary Add (Ident ''x'') (Literal (VInt 8)))"
proof -
  have n4: "(4::nat) = Suc 3" and n5: "(5::nat) = Suc 4" by simp_all
  have inner: "applyRulesFuel 256 4 (OpBinary Add (Ident ''x'') (Literal (VInt 8))) =
      Some (OpBinary Add (Ident ''x'') (Literal (VInt 8)))"
    unfolding n4 applyRulesFuel_Suc
    by (simp add: applyRule3_noShape shape_defs del: applyRulesFuel.simps)
  show ?thesis
    unfolding n5 applyRulesFuel_Suc
    by (simp add: applyRule3_leftAssoc isValue_def table_defs eval_defs
          inRange_def cond_defs inner del: applyRulesFuel.simps)
qed


lemma applyRulesFuel_enough:
  "nodeCount ast \<le> n \<Longrightarrow> nodeCount ast \<le> m \<Longrightarrow>
     applyRulesFuel w n ast = applyRulesFuel w m ast"
proof (induction n arbitrary: m ast)
  case 0
  then show ?case using nodeCount_pos [of ast] by simp
next
  case (Suc n)
  obtain m' where m: "m = Suc m'"
    using Suc.prems(2) nodeCount_pos [of ast] by (cases m) simp_all
  obtain p where run: "\<And>(optimizer :: bool ExpressionTransformer) s.
        applyRule3 w optimizer ast s = (case p of None \<Rightarrow> (ast, s) | Some t \<Rightarrow> optimizer t s)"
    and small: "\<And>t. p = Some t \<Longrightarrow> nodeCount t < nodeCount ast"
    using applyRule3_plan [of w ast, where 's = bool] by blast
  show ?case
  proof (cases p)
    case None
    then show ?thesis by (simp add: m applyRulesFuel_Suc run del: applyRulesFuel.simps)
  next
    case (Some t)
    have "nodeCount t \<le> n" and "nodeCount t \<le> m'"
      using small [OF Some] Suc.prems m by simp_all
    then have "applyRulesFuel w n t = applyRulesFuel w m' t" using Suc.IH by blast
    then show ?thesis
      using Some by (simp add: m applyRulesFuel_Suc run del: applyRulesFuel.simps)
  qed
qed

lemma applyRulesFuel_fixpoint:
  "nodeCount ast \<le> n \<Longrightarrow> applyRulesFuel w n ast = Some r \<Longrightarrow>
     applyRulesFuel w n r = Some r"
proof (induction n arbitrary: ast r)
  case 0
  then show ?case by simp
next
  case (Suc n)
  obtain p where run: "\<And>(optimizer :: bool ExpressionTransformer) s.
        applyRule3 w optimizer ast s = (case p of None \<Rightarrow> (ast, s) | Some t \<Rightarrow> optimizer t s)"
    and small: "\<And>t. p = Some t \<Longrightarrow> nodeCount t < nodeCount ast"
    using applyRule3_plan [of w ast, where 's = bool] by blast
  show ?case
  proof (cases p)
    case None
    then have "r = ast"
      using Suc.prems(2) by (simp add: applyRulesFuel_Suc run del: applyRulesFuel.simps)
    then show ?thesis using Suc.prems(2) by simp
  next
    case (Some t)
    have tn: "nodeCount t \<le> n" using small [OF Some] Suc.prems(1) by simp
    then obtain r' where r': "applyRulesFuel w n t = Some r'" and sz: "nodeCount r' \<le> nodeCount t"
      using applyRulesFuel_returns by blast
    have "r = r'"
      using Suc.prems(2) Some r'
      by (simp add: applyRulesFuel_Suc run del: applyRulesFuel.simps)
    then have "applyRulesFuel w n r = Some r" using Suc.IH [OF tn r'] by simp
    moreover have "applyRulesFuel w (Suc n) r = applyRulesFuel w n r"
      using applyRulesFuel_enough [of r "Suc n" n w] sz tn \<open>r = r'\<close> by simp
    ultimately show ?thesis by simp
  qed
qed

text \<open>
  Claim C9. With an optimizer that records its calls, \<^verbatim>\<open>AssociativeRule3\<close> calls
  \<open>applyRules\<close> at most once per invocation of \<open>applyRule\<close>, and only on a tree with
  strictly fewer nodes than the tree it rewrites; its result depends on the optimizer
  only through what the optimizer does on strictly smaller trees. The first two rules
  make no call at all, since their conditions never hold, and the tree that each of
  their eight call sites would pass has strictly fewer nodes than a tree of the shape
  of that branch. So rewriting terminates, by induction on the number of nodes: when
  \<open>applyRules\<close> runs the three rules in turn with itself as their callback, fuel equal to
  the number of nodes of the tree is enough for it to return, the tree it returns has no
  more nodes than the input, more fuel does not change the result, and the result is a
  fixpoint: \<open>applyRules\<close> returns it unchanged.
\<close>

theorem reoptimization_on_smaller_tree:
  "(\<forall>t \<in> set (snd (applyRule1 w (recording f) ast [])). nodeCount t < nodeCount ast) \<and>
   length (snd (applyRule1 w (recording f) ast [])) \<le> 1 \<and>
   (\<forall>t \<in> set (snd (applyRule2 (recording f) ast [])). nodeCount t < nodeCount ast) \<and>
   length (snd (applyRule2 (recording f) ast [])) \<le> 1 \<and>
   (\<forall>t \<in> set (snd (applyRule3 w (recording f) ast [])). nodeCount t < nodeCount ast) \<and>
   length (snd (applyRule3 w (recording f) ast [])) \<le> 1 \<and>
   ((\<forall>t s'. nodeCount t < nodeCount ast \<longrightarrow> optimizer t s' = optimizer' t s') \<longrightarrow>
      applyRule3 w optimizer ast s = applyRule3 w optimizer' ast s) \<and>
   snd (applyRule1 w (recording f) ast []) = [] \<and>
   snd (applyRule2 (recording f) ast []) = [] \<and>
   nodeCount (makeBinaryExpression op1 x1 x2) <
     nodeCount (OpBinary op0 (OpBinary op1 x1 c1) (OpBinary op2 x2 c2)) \<and>
   nodeCount (makeBinaryExpression op1 x1 (makeValueExpression v)) <
     nodeCount (OpBinary op0 (OpBinary op1 x1 c1) (OpBinary op2 c2 x2)) \<and>
   nodeCount (makeBinaryExpression op2 x2 (makeValueExpression v)) <
     nodeCount (OpBinary op0 (OpBinary op1 c1 x1) (OpBinary op2 x2 c2)) \<and>
   nodeCount (makeBinaryExpression op2 x1 x2) <
     nodeCount (OpBinary op0 (OpBinary op1 c1 x1) (OpBinary op2 c2 x2)) \<and>
   nodeCount (makeBinaryExpression op1 x1 x2) <
     nodeCount (OpBinary op0 (OpBinary op1 x1 c1) x2) \<and>
   nodeCount (makeBinaryExpression op0 x1 x2) <
     nodeCount (OpBinary op0 (OpBinary op1 c1 x1) x2) \<and>
   nodeCount (makeBinaryExpression op0 x2 x1) <
     nodeCount (OpBinary op0 x2 (OpBinary op1 x1 c1)) \<and>
   nodeCount (makeBinaryExpression op1 x2 x1) <
     nodeCount (OpBinary op0 x2 (OpBinary op1 c1 x1)) \<and>
   (nodeCount ast \<le> n \<longrightarrow>
      (\<exists>r. applyRulesFuel w n ast = Some r \<and> nodeCount r \<le> nodeCount ast)) \<and>
   (nodeCount ast \<le> n \<and> nodeCount ast \<le> m \<longrightarrow>
      applyRulesFuel w n ast = applyRulesFuel w m ast) \<and>
   (nodeCount ast \<le> n \<and> applyRulesFuel w n ast = Some r \<longrightarrow>
      applyRulesFuel w n r = Some r)"
proof -
  obtain p where run: "\<And>(optimizer :: expr list ExpressionTransformer) s.
        applyRule3 w optimizer ast s = (case p of None \<Rightarrow> (ast, s) | Some t \<Rightarrow> optimizer t s)"
    and small: "\<And>t. p = Some t \<Longrightarrow> nodeCount t < nodeCount ast"
    using applyRule3_plan [of w ast, where 's = "expr list"] by blast
  obtain r' where run': "\<And>(optimizer :: 'a ExpressionTransformer) s.
        applyRule3 w optimizer ast s = (case r' of None \<Rightarrow> (ast, s) | Some t \<Rightarrow> optimizer t s)"
    and small': "\<And>t. r' = Some t \<Longrightarrow> nodeCount t < nodeCount ast"
    using applyRule3_plan [of w ast, where 's = 'a] by blast
  have calls: "snd (applyRule3 w (recording f) ast []) = (case p of None \<Rightarrow> [] | Some t \<Rightarrow> [t])"
    by (simp add: run recording_def split: option.split)
  have dep: "(\<forall>t s'. nodeCount t < nodeCount ast \<longrightarrow> optimizer t s' = optimizer' t s') \<longrightarrow>
      applyRule3 w optimizer ast s = applyRule3 w optimizer' ast s"
    using small' by (auto simp: run' split: option.split)
  have step: "(\<forall>t \<in> set (snd (applyRule3 w (recording f) ast [])). nodeCount t < nodeCount ast) \<and>
      length (snd (applyRule3 w (recording f) ast [])) \<le> 1"
    using small by (auto simp: calls split: option.splits)
  have fuel: "nodeCount ast \<le> n \<longrightarrow>
      (\<exists>r. applyRulesFuel w n ast = Some r \<and> nodeCount r \<le> nodeCount ast)"
    using applyRulesFuel_returns by blast
  have same: "nodeCount ast \<le> n \<and> nodeCount ast \<le> m \<longrightarrow>
      applyRulesFuel w n ast = applyRulesFuel w m ast"
    using applyRulesFuel_enough by blast
  have none: "snd (applyRule1 w (recording f) ast []) = []"
    "snd (applyRule2 (recording f) ast []) = []"
    by (simp_all add: applyRule1_unchanged applyRule2_unchanged)
  have dormant: "\<forall>t \<in> set (snd (applyRule1 w (recording f) ast [])). nodeCount t < nodeCount ast"
    "length (snd (applyRule1 w (recording f) ast [])) \<le> 1"
    "\<forall>t \<in> set (snd (applyRule2 (recording f) ast [])). nodeCount t < nodeCount ast"
    "length (snd (applyRule2 (recording f) ast [])) \<le> 1"
    by (simp_all add: none)
  have fixed: "nodeCount ast \<le> n \<and> applyRulesFuel w n ast = Some r \<longrightarrow>
      applyRulesFuel w n r = Some r"
    using applyRulesFuel_fixpoint by blast
  show ?thesis
    by (intro conjI)
       (rule dormant none call_sites_smaller dep fuel same fixed
          step [THEN conjunct1] step [THEN conjunct2])+
qed

theorem reoptimization_on_smaller_tree_witness:
  "nodeCount (OpBinary Add (OpBinary Add (Ident ''x'') (Literal (VInt 5))) (Literal (VInt 3)))
     \<le> 5 \<and>
   applyRulesFuel 256 5
     (OpBinary Add (OpBinary Add (Ident ''x'') (Literal (VInt 5))) (Literal (VInt 3))) =
     Some (OpBinary Add (Ident ''x'') (Literal (VInt 8))) \<and>
   snd (applyRule3 256 (recording (\<lambda>e. e))
     (OpBinary Add (OpBinary Add (Ident ''x'') (Literal (VInt 5))) (Literal (VInt 3))) []) =
     [OpBinary Add (Ident ''x'') (Literal (VInt 8))] \<and>
   nodeCount (OpBinary Add (Ident ''x'') (Literal (VInt 8))) <
   nodeCount (OpBinary Add (OpBinary Add (Ident ''x'') (Literal (VInt 5))) (Literal (VInt 3)))"
proof -
  have c: "snd (applyRule3 256 (recording (\<lambda>e. e))
     (OpBinary Add (OpBinary Add (Ident ''x'') (Literal (VInt 5))) (Literal (VInt 3))) []) =
     [OpBinary Add (Ident ''x'') (Literal (VInt 8))]"
    by (simp add: applyRule3_leftAssoc isValue_def table_defs eval_defs inRange_def
          cond_defs recording_def)
  show ?thesis
    using c fuel_example
      reoptimization_on_smaller_tree [where w = 256 and f = "\<lambda>e. e" and n = 5 and
        ast = "OpBinary Add (OpBinary Add (Ident ''x'') (Literal (VInt 5))) (Literal (VInt 3))"]
    by (simp del: applyRulesFuel.simps)
qed

section \<open>The third rule: failures inside the \<^verbatim>\<open>try\<close> block\<close>

lemma evalBinaryOp_nonInt:
  assumes "isl (ensureInt x) \<or> isl (ensureInt y)"
  shows "evalBinaryOp w Add x y = Inl EvalError"
    and "evalBinaryOp w Sub x y = Inl EvalError"
    and "evalBinaryOp w Mul x y = Inl EvalError"
  using assms
  by (cases x; cases y; simp add: evalBinaryOp_def intOp_def ensureInt_def)+

lemma tableEntry_throws:
  "foldc c1 c2 = Inl e \<Longrightarrow> attemptThrows (Some (tableEntry foldc newOp cond)) c1 c2"
  by (simp add: attemptThrows_def tableEntry_def bindE_def)

lemma nonInt_throws:
  assumes "isl (ensureInt c1) \<or> isl (ensureInt c2)"
  shows "attemptThrows (getLeftAssociativityTransform w a b) c1 c2"
    and "attemptThrows (getLeftCommutativityTransform w a b) c1 c2"
    and "attemptThrows (getRightCommutativityTransform w a b) c1 c2"
    and "attemptThrows (getRightAssociativityTransform w a b) c1 c2"
proof -
  have sw: "isl (ensureInt c2) \<or> isl (ensureInt c1)" using assms by blast
  show "attemptThrows (getLeftAssociativityTransform w a b) c1 c2"
  proof (cases "getLeftAssociativityTransform w a b")
    case None then show ?thesis by (simp add: attemptThrows_def)
  next
    case (Some t)
    then show ?thesis
      using getLeftAssociativity_cases [OF Some] evalBinaryOp_nonInt [OF assms]
      by (auto intro!: tableEntry_throws)
  qed
  show "attemptThrows (getLeftCommutativityTransform w a b) c1 c2"
  proof (cases "getLeftCommutativityTransform w a b")
    case None then show ?thesis by (simp add: attemptThrows_def)
  next
    case (Some t)
    then show ?thesis
      using getLeftCommutativity_cases [OF Some] evalBinaryOp_nonInt [OF assms]
      by (auto intro!: tableEntry_throws)
  qed
  show "attemptThrows (getRightCommutativityTransform w a b) c1 c2"
  proof (cases "getRightCommutativityTransform w a b")
    case None then show ?thesis by (simp add: attemptThrows_def)
  next
    case (Some t)
    then show ?thesis
      using getRightCommutativity_cases [OF Some] evalBinaryOp_nonInt [OF assms]
        evalBinaryOp_nonInt [OF sw]
      by (auto intro!: tableEntry_throws)
  qed
  show "attemptThrows (getRightAssociativityTransform w a b) c1 c2"
  proof (cases "getRightAssociativityTransform w a b")
    case None then show ?thesis by (simp add: attemptThrows_def)
  next
    case (Some t)
    then show ?thesis
      using getRightAssociativity_cases [OF Some] evalBinaryOp_nonInt [OF sw]
      by (auto intro!: tableEntry_throws)
  qed
qed

lemma throws_unchanged:
  "attemptThrows (getLeftAssociativityTransform w op1 op0) c1 c2 \<Longrightarrow>
     applyRule3 w optimizer (OpBinary op0 (OpBinary op1 x1 (Literal c1)) (Literal c2)) s =
       (OpBinary op0 (OpBinary op1 x1 (Literal c1)) (Literal c2), s)"
  "attemptThrows (getLeftCommutativityTransform w op1 op0) c1 c2 \<Longrightarrow>
     applyRule3 w optimizer (OpBinary op0 (OpBinary op1 (Literal c1) x1) (Literal c2)) s =
       (OpBinary op0 (OpBinary op1 (Literal c1) x1) (Literal c2), s)"
  "attemptThrows (getRightCommutativityTransform w op0 op1) c1 c2 \<Longrightarrow>
     applyRule3 w optimizer (OpBinary op0 (Literal c2) (OpBinary op1 x1 (Literal c1))) s =
       (OpBinary op0 (Literal c2) (OpBinary op1 x1 (Literal c1)), s)"
  "attemptThrows (getRightAssociativityTransform w op0 op1) c1 c2 \<Longrightarrow>
     applyRule3 w optimizer (OpBinary op0 (Literal c2) (OpBinary op1 (Literal c1) x1)) s =
       (OpBinary op0 (Literal c2) (OpBinary op1 (Literal c1) x1), s)"
proof -
  have lit: "isValue x1 \<Longrightarrow> \<exists>a. x1 = Literal a" using isValue_shape by blast
  show "attemptThrows (getLeftAssociativityTransform w op1 op0) c1 c2 \<Longrightarrow>
     applyRule3 w optimizer (OpBinary op0 (OpBinary op1 x1 (Literal c1)) (Literal c2)) s =
       (OpBinary op0 (OpBinary op1 x1 (Literal c1)) (Literal c2), s)"
    using lit
    by (cases "isValue x1")
       (auto simp: applyRule3_literals_left applyRule3_leftAssoc attemptThrows_def
          split: option.splits sum.splits)
  show "attemptThrows (getLeftCommutativityTransform w op1 op0) c1 c2 \<Longrightarrow>
     applyRule3 w optimizer (OpBinary op0 (OpBinary op1 (Literal c1) x1) (Literal c2)) s =
       (OpBinary op0 (OpBinary op1 (Literal c1) x1) (Literal c2), s)"
    using lit
    by (cases "isValue x1")
       (auto simp: applyRule3_literals_left applyRule3_leftCommute attemptThrows_def
          split: option.splits sum.splits)
  show "attemptThrows (getRightCommutativityTransform w op0 op1) c1 c2 \<Longrightarrow>
     applyRule3 w optimizer (OpBinary op0 (Literal c2) (OpBinary op1 x1 (Literal c1))) s =
       (OpBinary op0 (Literal c2) (OpBinary op1 x1 (Literal c1)), s)"
    using lit
    by (cases "isValue x1")
       (auto simp: applyRule3_literals_right applyRule3_rightCommute attemptThrows_def
          split: option.splits sum.splits)
  show "attemptThrows (getRightAssociativityTransform w op0 op1) c1 c2 \<Longrightarrow>
     applyRule3 w optimizer (OpBinary op0 (Literal c2) (OpBinary op1 (Literal c1) x1)) s =
       (OpBinary op0 (Literal c2) (OpBinary op1 (Literal c1) x1), s)"
    using lit
    by (cases "isValue x1")
       (auto simp: applyRule3_literals_right applyRule3_rightAssoc attemptThrows_def
          split: option.splits sum.splits)
qed

text \<open>
  Claim C5. On each of the four shapes of \<^verbatim>\<open>AssociativeRule3\<close>, when the \<^verbatim>\<open>try\<close> block
  throws (the fold of the two constants fails in the evaluator, or a constant is not an
  integer, or the table has no entry), \<open>applyRule\<close> returns the input node itself and
  the optimizer has not been called. In particular a constant that is not an integer,
  such as a boolean, always has this effect. The rule is a total function into trees:
  no error leaves it.
\<close>

theorem failure_paths_unchanged:
  "(attemptThrows (getLeftAssociativityTransform w op1 op0) c1 c2 \<longrightarrow>
      applyRule3 w optimizer (OpBinary op0 (OpBinary op1 x1 (Literal c1)) (Literal c2)) s =
        (OpBinary op0 (OpBinary op1 x1 (Literal c1)) (Literal c2), s)) \<and>
   (attemptThrows (getLeftCommutativityTransform w op1 op0) c1 c2 \<longrightarrow>
      applyRule3 w optimizer (OpBinary op0 (OpBinary op1 (Literal c1) x1) (Literal c2)) s =
        (OpBinary op0 (OpBinary op1 (Literal c1) x1) (Literal c2), s)) \<and>
   (attemptThrows (getRightCommutativityTransform w op0 op1) c1 c2 \<longrightarrow>
      applyRule3 w optimizer (OpBinary op0 (Literal c2) (OpBinary op1 x1 (Literal c1))) s =
        (OpBinary op0 (Literal c2) (OpBinary op1 x1 (Literal c1)), s)) \<and>
   (attemptThrows (getRightAssociativityTransform w op0 op1) c1 c2 \<longrightarrow>
      applyRule3 w optimizer (OpBinary op0 (Literal c2) (OpBinary op1 (Literal c1) x1)) s =
        (OpBinary op0 (Literal c2) (OpBinary op1 (Literal c1) x1), s)) \<and>
   (isl (ensureInt c1) \<or> isl (ensureInt c2) \<longrightarrow>
      applyRule3 w optimizer (OpBinary op0 (OpBinary op1 x1 (Literal c1)) (Literal c2)) s =
        (OpBinary op0 (OpBinary op1 x1 (Literal c1)) (Literal c2), s) \<and>
      applyRule3 w optimizer (OpBinary op0 (OpBinary op1 (Literal c1) x1) (Literal c2)) s =
        (OpBinary op0 (OpBinary op1 (Literal c1) x1) (Literal c2), s) \<and>
      applyRule3 w optimizer (OpBinary op0 (Literal c2) (OpBinary op1 x1 (Literal c1))) s =
        (OpBinary op0 (Literal c2) (OpBinary op1 x1 (Literal c1)), s) \<and>
      applyRule3 w optimizer (OpBinary op0 (Literal c2) (OpBinary op1 (Literal c1) x1)) s =
        (OpBinary op0 (Literal c2) (OpBinary op1 (Literal c1) x1), s))"
  by (simp add: throws_unchanged nonInt_throws)

theorem failure_paths_unchanged_witness:
  "isl (ensureInt (VBool True)) \<and>
   applyRule3 256 (recording (\<lambda>e. e))
     (OpBinary Add (OpBinary Add (Ident ''x'') (Literal (VBool True))) (Literal (VInt 3))) [] =
     (OpBinary Add (OpBinary Add (Ident ''x'') (Literal (VBool True))) (Literal (VInt 3)), []) \<and>
   attemptThrows (getLeftAssociativityTransform 2 Add Add) (VInt 3) (VInt 1) \<and>
   applyRule3 2 (recording (\<lambda>e. e))
     (OpBinary Add (OpBinary Add (Ident ''x'') (Literal (VInt 3))) (Literal (VInt 1))) [] =
     (OpBinary Add (OpBinary Add (Ident ''x'') (Literal (VInt 3))) (Literal (VInt 1)), [])"
proof -
  have a: "isl (ensureInt (VBool True))" by (simp add: ensureInt_def)
  have b: "attemptThrows (getLeftAssociativityTransform 2 Add Add) (VInt 3) (VInt 1)"
    by (simp add: attemptThrows_def table_defs eval_defs inRange_def)
  show ?thesis
    using a b
      failure_paths_unchanged [of 256 Add Add "VBool True" "VInt 3" "recording (\<lambda>e. e)"
        "Ident ''x''" "[]"]
      failure_paths_unchanged [of 2 Add Add "VInt 3" "VInt 1" "recording (\<lambda>e. e)"
        "Ident ''x''" "[]"]
    by simp
qed

end
